theory Spec2Isabelle
  imports Complex_Main "HOL-Library.Multiset" "HOL-Library.Monad_Syntax"
begin

section \<open>Pipeline items\<close>

text \<open>
  A \<^verbatim>\<open>PipelineItem*\<close> is modelled by its address; \<^verbatim>\<open>nullptr\<close> is address 0.
\<close>

type_synonym item_ptr = nat

definition nullptr :: item_ptr where
  "nullptr = 0"

section \<open>The pick selection list\<close>

text \<open>
  \<^verbatim>\<open>RenderEngine::Pick(PipelineItem* item, bool add)\<close>. The scan over \<^verbatim>\<open>m_pick\<close>
  stops at the first entry equal to \<^verbatim>\<open>item\<close>; it returns the list as the loop leaves
  it and the flag \<^verbatim>\<open>skipAdd\<close>. The last argument of the scan is the part of the
  list that is still to be visited.
\<close>

fun Pick_scan :: "item_ptr \<Rightarrow> bool \<Rightarrow> item_ptr list \<Rightarrow> item_ptr list \<Rightarrow> item_ptr list \<times> bool" where
  "Pick_scan item add m_pick [] = (m_pick, False)"
| "Pick_scan item add m_pick (p # rest) =
     (if p = item then ((if \<not> add then [item] else m_pick), True)
      else Pick_scan item add m_pick rest)"

definition Pick :: "item_ptr \<Rightarrow> bool \<Rightarrow> item_ptr list \<Rightarrow> item_ptr list" where
  "Pick item add m_pick =
     (case Pick_scan item add m_pick m_pick of
        (m_pick', skipAdd) \<Rightarrow>
          if \<not> skipAdd then
            (if item = nullptr then []
             else if add then m_pick' @ [item]
             else [item])
          else m_pick')"

text \<open>\<^verbatim>\<open>RenderEngine::AddPickedItem(PipelineItem* pipe, bool multiPick)\<close>.\<close>

fun AddPickedItem_scan :: "item_ptr \<Rightarrow> bool \<Rightarrow> item_ptr list \<Rightarrow> item_ptr list \<Rightarrow> item_ptr list \<times> bool" where
  "AddPickedItem_scan pipe multiPick m_pick [] = (m_pick, False)"
| "AddPickedItem_scan pipe multiPick m_pick (p # rest) =
     (if p = pipe then ((if \<not> multiPick then [pipe] else m_pick), True)
      else AddPickedItem_scan pipe multiPick m_pick rest)"

definition AddPickedItem :: "item_ptr \<Rightarrow> bool \<Rightarrow> item_ptr list \<Rightarrow> item_ptr list" where
  "AddPickedItem pipe multiPick m_pick =
     (case AddPickedItem_scan pipe multiPick m_pick m_pick of
        (m_pick', skipAdd) \<Rightarrow>
          if \<not> skipAdd then
            (if pipe = nullptr then []
             else if multiPick then m_pick' @ [pipe]
             else [pipe])
          else m_pick')"

text \<open>
  The operations that write \<^verbatim>\<open>m_pick\<close>: the two above and the
  \<^verbatim>\<open>m_pick.clear()\<close> at the end of \<^verbatim>\<open>Render\<close> when a pick found nothing.
\<close>

datatype pick_op = OpPick item_ptr bool | OpAddPickedItem item_ptr bool | OpClear

fun apply_pick_op :: "pick_op \<Rightarrow> item_ptr list \<Rightarrow> item_ptr list" where
  "apply_pick_op (OpPick item add) m_pick = Pick item add m_pick"
| "apply_pick_op (OpAddPickedItem pipe multiPick) m_pick = AddPickedItem pipe multiPick m_pick"
| "apply_pick_op OpClear m_pick = []"

fun apply_pick_ops :: "pick_op list \<Rightarrow> item_ptr list \<Rightarrow> item_ptr list" where
  "apply_pick_ops [] m_pick = m_pick"
| "apply_pick_ops (op # ops) m_pick = apply_pick_ops ops (apply_pick_op op m_pick)"

section \<open>The operations of \<^verbatim>\<open>std::string\<close> used by the preprocessor\<close>

text \<open>
  Positions are \<^verbatim>\<open>size_t\<close>; a search returns \<open>None\<close> for
  \<^verbatim>\<open>std::string::npos\<close>, the largest \<^verbatim>\<open>size_t\<close>. Adding one to a position
  wraps \<^verbatim>\<open>npos\<close> around to 0.
\<close>

definition nl :: char where
  "nl = CHR 0x0A"

definition dquote :: char where
  "dquote = CHR 0x22"

fun pos_plus1 :: "nat option \<Rightarrow> nat" where
  "pos_plus1 None = 0"
| "pos_plus1 (Some k) = k + 1"

text \<open>
  \<^verbatim>\<open>s.find_first_of(chars, pos)\<close>: the first position from \<open>pos\<close> on that holds
  any one of the characters of \<open>chars\<close>.
\<close>

fun find_first_of_from :: "char list \<Rightarrow> string \<Rightarrow> nat \<Rightarrow> nat option" where
  "find_first_of_from chars [] i = None"
| "find_first_of_from chars (c # cs) i =
     (if c \<in> set chars then Some i else find_first_of_from chars cs (Suc i))"

definition find_first_of :: "string \<Rightarrow> char list \<Rightarrow> nat \<Rightarrow> nat option" where
  "find_first_of s chars pos = find_first_of_from chars (drop pos s) pos"

text \<open>\<^verbatim>\<open>s.find(sub, pos)\<close>: the first position from \<open>pos\<close> on where \<open>sub\<close> starts.\<close>

fun find_from :: "string \<Rightarrow> string \<Rightarrow> nat \<Rightarrow> nat option" where
  "find_from sub [] i = (if sub = [] then Some i else None)"
| "find_from sub (c # cs) i =
     (if take (length sub) (c # cs) = sub then Some i else find_from sub cs (Suc i))"

definition find_str :: "string \<Rightarrow> string \<Rightarrow> nat \<Rightarrow> nat option" where
  "find_str s sub pos = (if pos \<le> length s then find_from sub (drop pos s) pos else None)"

text \<open>\<^verbatim>\<open>s.insert(pos, str)\<close>, for \<open>pos \<le> length s\<close> (beyond that the source throws).\<close>

definition insert_at :: "nat \<Rightarrow> string \<Rightarrow> string \<Rightarrow> string" where
  "insert_at pos str s = take pos s @ str @ drop pos s"

text \<open>
  \<^verbatim>\<open>s.erase(pos, e - pos)\<close> where \<open>e\<close> is the result of a search from \<open>pos\<close>:
  with \<open>e = npos\<close> the count exceeds the rest of the string and everything from
  \<open>pos\<close> on is erased.
\<close>

fun erase_until :: "nat \<Rightarrow> nat option \<Rightarrow> string \<Rightarrow> string" where
  "erase_until pos None s = take pos s"
| "erase_until pos (Some e) s = take pos s @ drop e s"

text \<open>
  \<^verbatim>\<open>s.substr(quotePos + 1, quoteEnd - quotePos - 1)\<close> in \<^verbatim>\<open>size_t\<close> arithmetic:
  \<open>npos + 1\<close> is 0, \<open>e - npos - 1\<close> is \<open>e\<close>, \<open>npos - npos - 1\<close> is \<open>npos\<close>,
  and a count that reaches beyond the end takes the rest of the string.
\<close>

fun substr_between :: "nat option \<Rightarrow> nat option \<Rightarrow> string \<Rightarrow> string" where
  "substr_between (Some q) (Some e) s = take (e - q - 1) (drop (q + 1) s)"
| "substr_between (Some q) None s = drop (q + 1) s"
| "substr_between None (Some e) s = take e s"
| "substr_between None None s = s"

section \<open>Macro injection\<close>

record ShaderMacro =
  macro_Active :: bool
  macro_Name :: string
  macro_Value :: string

text \<open>The loop of \<^verbatim>\<open>m_applyMacros\<close> that builds \<^verbatim>\<open>strMacro\<close>.\<close>

fun strMacro_loop :: "ShaderMacro list \<Rightarrow> string \<Rightarrow> string" where
  "strMacro_loop [] strMacro = strMacro"
| "strMacro_loop (macro # rest) strMacro =
     (if \<not> macro_Active macro then strMacro_loop rest strMacro
      else strMacro_loop rest
             (strMacro @ ''#define '' @ macro_Name macro @ '' '' @ macro_Value macro @ [nl]))"

text \<open>
  \<^verbatim>\<open>RenderEngine::m_applyMacros(std::string& src, pipe::ShaderPass* pass)\<close>; the
  overloads for compute and audio passes have the same body. The argument is
  \<^verbatim>\<open>pass->Macros\<close>.
\<close>

definition m_applyMacros :: "string \<Rightarrow> ShaderMacro list \<Rightarrow> string" where
  "m_applyMacros src Macros =
     (let verLoc = find_first_of src ''#version'' 0;
          lineLoc = pos_plus1 (find_first_of src [nl] (pos_plus1 verLoc));
          strMacro = strMacro_loop Macros []
      in if length strMacro > 0 then insert_at lineLoc strMacro src else src)"

section \<open>Project files and the message stack\<close>

text \<open>
  \<^verbatim>\<open>ProjectParser::FileExists\<close> and \<^verbatim>\<open>ProjectParser::LoadProjectFile\<close> are not part
  of the sources at hand. The project is taken as a parameter: the table of its files,
  keyed by the path string that is handed to these two functions, and the configured
  \<^verbatim>\<open>Settings::Project.IncludePaths\<close>. Loading a path that is not in the table gives
  the empty string.
\<close>

record project =
  files :: "(string \<times> string) list"
  IncludePaths :: "string list"

definition FileExists :: "project \<Rightarrow> string \<Rightarrow> bool" where
  "FileExists proj path = (path \<in> set (map fst (files proj)))"

definition LoadProjectFile :: "project \<Rightarrow> string \<Rightarrow> string" where
  "LoadProjectFile proj path = (case map_of (files proj) path of Some content \<Rightarrow> content | None \<Rightarrow> [])"

datatype MessageType = MsgError | MsgWarning | MsgMessage

text \<open>
  The \<^verbatim>\<open>MessageStack\<close> collaborator: the fields the engine writes, and the diagnostics
  added so far as (type, group, text), oldest first.
\<close>

record MessageStack =
  CurrentItem :: string
  CurrentItemType :: nat
  BuildOccured :: bool
  messages :: "(MessageType \<times> string \<times> string) list"

definition msgs_Add :: "MessageType \<Rightarrow> string \<Rightarrow> string \<Rightarrow> MessageStack \<Rightarrow> MessageStack" where
  "msgs_Add ty grp txt m = m\<lparr>messages := messages m @ [(ty, grp, txt)]\<rparr>"

definition msgs_ClearGroup :: "string \<Rightarrow> MessageStack \<Rightarrow> MessageStack" where
  "msgs_ClearGroup grp m = m\<lparr>messages := filter (\<lambda>(ty, g, txt). g \<noteq> grp) (messages m)\<rparr>"

section \<open>Include expansion\<close>

text \<open>
  The variables of one activation of \<^verbatim>\<open>m_includeCheck\<close>: \<^verbatim>\<open>src\<close> and
  \<^verbatim>\<open>lineBias\<close> are references into the caller, \<^verbatim>\<open>includeStack\<close> is the
  activation's own copy, and the message stack is shared by all.
\<close>

record include_state =
  src :: string
  includeStack :: "string list"
  lineBias :: nat
  msgStack :: MessageStack

text \<open>
  \<^verbatim>\<open>paths\<close> of \<^verbatim>\<open>m_includeCheck\<close>: the configured include paths followed by
  \<^verbatim>\<open>"."\<close>.
\<close>

definition include_paths :: "project \<Rightarrow> string list" where
  "include_paths proj = IncludePaths proj @ [''.'']"

text \<open>
  The candidate path for one entry of \<^verbatim>\<open>paths\<close>. The source reads the last
  character of the entry; for an empty entry that read is out of range, and the model
  appends the separator there.
\<close>

definition candidate_path :: "string \<Rightarrow> string \<Rightarrow> string" where
  "candidate_path p fileName =
     (if p \<noteq> [] \<and> (last p = CHR 0x5C \<or> last p = CHR ''/'') then p @ fileName
      else p @ ''/'' @ fileName)"

text \<open>
  One round of the \<^verbatim>\<open>for\<close> loop over \<^verbatim>\<open>paths\<close>, before the test for
  expansion: it erases from \<^verbatim>\<open>incLoc\<close> to the next newline and reports a candidate
  that is on the include stack.
\<close>

definition include_for_round :: "string \<Rightarrow> nat \<Rightarrow> include_state \<Rightarrow> include_state" where
  "include_for_round ipath incLoc st =
     (let st1 = st\<lparr>src := erase_until incLoc (find_first_of (src st) [nl] incLoc) (src st)\<rparr>
      in if count_list (includeStack st1) ipath > 0
         then st1\<lparr>msgStack := msgs_Add MsgError (CurrentItem (msgStack st1))
                              ''Recursive #include detected'' (msgStack st1)\<rparr>
         else st1)"

text \<open>
  The \<^verbatim>\<open>for\<close> loop over \<^verbatim>\<open>paths\<close>, up to its \<^verbatim>\<open>break\<close>. The loop ends after
  the last path, with \<open>None\<close>, or at the first candidate that exists and is not on the
  stack, with that candidate: the caller then runs the body of the \<^verbatim>\<open>if\<close> that ends
  in \<^verbatim>\<open>break\<close>.
\<close>

fun include_for :: "project \<Rightarrow> string list \<Rightarrow> string \<Rightarrow> nat \<Rightarrow> include_state
    \<Rightarrow> include_state \<times> string option" where
  "include_for proj [] fileName incLoc st = (st, None)"
| "include_for proj (p # paths) fileName incLoc st =
     (if FileExists proj (candidate_path p fileName)
         \<and> count_list (includeStack (include_for_round (candidate_path p fileName) incLoc st))
              (candidate_path p fileName) = 0
      then (include_for_round (candidate_path p fileName) incLoc st, Some (candidate_path p fileName))
      else include_for proj paths fileName incLoc
             (include_for_round (candidate_path p fileName) incLoc st))"

text \<open>The number of project files that are not on the include stack.\<close>

definition unvisited :: "project \<Rightarrow> string list \<Rightarrow> nat" where
  "unvisited proj stack = card (set (map fst (files proj)) - set stack)"

fun pos_left :: "string \<Rightarrow> nat option \<Rightarrow> nat" where
  "pos_left s None = 0"
| "pos_left s (Some i) = Suc (Suc (length s) - i)"

lemma find_first_of_from_bounds:
  "find_first_of_from chars s i = Some j \<Longrightarrow> i \<le> j \<and> j < i + length s"
  by (induction s arbitrary: i) (fastforce split: if_splits)+

lemma find_first_of_bounds:
  "find_first_of s chars pos = Some j \<Longrightarrow> pos \<le> j \<and> j < length s"
  unfolding find_first_of_def by (fastforce dest!: find_first_of_from_bounds)

lemma erase_line_length:
  "length (erase_until incLoc (find_first_of s [nl] incLoc) s) \<le> length s"
proof (cases "find_first_of s [nl] incLoc")
  case None
  then show ?thesis by simp
next
  case (Some e)
  then have "incLoc \<le> e" using find_first_of_bounds by blast
  with Some show ?thesis by simp
qed

lemma include_for_round_stack:
  "includeStack (include_for_round ipath incLoc st) = includeStack st"
  by (simp add: include_for_round_def Let_def)

lemma include_for_round_length:
  "length (src (include_for_round ipath incLoc st)) \<le> length (src st)"
  using erase_line_length [of incLoc "src st"] by (simp add: include_for_round_def Let_def)

lemma include_for_stack:
  "include_for proj paths fileName incLoc st = (st', r) \<Longrightarrow> includeStack st' = includeStack st"
proof (induction paths arbitrary: st)
  case Nil
  then show ?case by simp
next
  case (Cons p paths)
  show ?case
  proof (cases "FileExists proj (candidate_path p fileName)
      \<and> count_list (includeStack (include_for_round (candidate_path p fileName) incLoc st))
           (candidate_path p fileName) = 0")
    case True
    with Cons.prems show ?thesis by (auto simp: include_for_round_stack)
  next
    case False
    with Cons.prems
    have "include_for proj paths fileName incLoc
            (include_for_round (candidate_path p fileName) incLoc st) = (st', r)"
      by simp
    from Cons.IH [OF this] show ?thesis by (simp add: include_for_round_stack)
  qed
qed

lemma include_for_length:
  "include_for proj paths fileName incLoc st = (st', r) \<Longrightarrow> length (src st') \<le> length (src st)"
proof (induction paths arbitrary: st)
  case Nil
  then show ?case by simp
next
  case (Cons p paths)
  have r: "length (src (include_for_round (candidate_path p fileName) incLoc st)) \<le> length (src st)"
    by (rule include_for_round_length)
  show ?case
  proof (cases "FileExists proj (candidate_path p fileName)
      \<and> count_list (includeStack (include_for_round (candidate_path p fileName) incLoc st))
           (candidate_path p fileName) = 0")
    case True
    with Cons.prems r show ?thesis by simp
  next
    case False
    with Cons.prems
    have "include_for proj paths fileName incLoc
            (include_for_round (candidate_path p fileName) incLoc st) = (st', r)"
      by simp
    from Cons.IH [OF this] r show ?thesis by simp
  qed
qed

lemma include_for_found:
  "include_for proj paths fileName incLoc st = (st', Some ipath) \<Longrightarrow>
     FileExists proj ipath \<and> ipath \<notin> set (includeStack st)"
proof (induction paths arbitrary: st)
  case Nil
  then show ?case by simp
next
  case (Cons p paths)
  show ?case
  proof (cases "FileExists proj (candidate_path p fileName)
      \<and> count_list (includeStack (include_for_round (candidate_path p fileName) incLoc st))
           (candidate_path p fileName) = 0")
    case True
    with Cons.prems show ?thesis
      by (auto simp: include_for_round_stack count_list_0_iff)
  next
    case False
    with Cons.prems
    have "include_for proj paths fileName incLoc
            (include_for_round (candidate_path p fileName) incLoc st) = (st', Some ipath)"
      by simp
    from Cons.IH [OF this] show ?thesis by (simp add: include_for_round_stack)
  qed
qed

lemma unvisited_push:
  "FileExists proj ipath \<Longrightarrow> ipath \<notin> set stack \<Longrightarrow>
     unvisited proj (stack @ [ipath]) < unvisited proj stack"
  unfolding unvisited_def FileExists_def
  by (intro psubset_card_mono) auto

lemma find_from_bounds:
  "find_from sub s i = Some j \<Longrightarrow> sub \<noteq> [] \<Longrightarrow> i \<le> j \<and> j < i + length s"
  by (induction s arbitrary: i) (fastforce split: if_splits)+

lemma find_str_bounds:
  "find_str s sub pos = Some j \<Longrightarrow> sub \<noteq> [] \<Longrightarrow> pos \<le> j \<and> j < length s"
  unfolding find_str_def by (auto split: if_splits dest!: find_from_bounds)

lemma pos_left_next:
  "length s' \<le> length s \<Longrightarrow> pos_left s' (find_str s' ''#include'' (i + 1)) < pos_left s (Some i)"
proof (cases "find_str s' ''#include'' (i + 1)")
  case None
  then show ?thesis by simp
next
  case (Some j)
  then have "i + 1 \<le> j \<and> j < length s'" using find_str_bounds by blast
  moreover assume "length s' \<le> length s"
  ultimately show ?thesis using Some by (simp; arith)
qed

text \<open>
  The \<^verbatim>\<open>while\<close> loop of \<^verbatim>\<open>m_includeCheck\<close>, from the position \<^verbatim>\<open>incLoc\<close> the last
  search returned. An expansion pushes the candidate on this activation's stack, loads
  the file, sets the line bias, and runs \<^verbatim>\<open>m_includeCheck\<close> on the loaded text with
  a copy of the stack; the expanded text is then inserted at \<^verbatim>\<open>incLoc\<close>.
\<close>

function m_includeCheck_while :: "project \<Rightarrow> include_state \<Rightarrow> nat option \<Rightarrow> include_state" where
  "m_includeCheck_while proj st None = st"
| "m_includeCheck_while proj st (Some incLoc) =
     (if incLoc \<noteq> 0 \<and> src st ! (incLoc - 1) \<noteq> nl
      then m_includeCheck_while proj st (find_str (src st) ''#include'' (incLoc + 1))
      else
        (let quotePos = find_first_of (src st) [dquote, CHR ''<''] incLoc;
             quoteEnd = find_first_of (src st) [dquote, CHR ''>''] (pos_plus1 quotePos);
             fileName = substr_between quotePos quoteEnd (src st)
         in case include_for proj (include_paths proj) fileName incLoc st of
              (st1, None) \<Rightarrow>
                m_includeCheck_while proj st1 (find_str (src st1) ''#include'' (incLoc + 1))
            | (st1, Some ipath) \<Rightarrow>
                (let stack' = includeStack st1 @ [ipath];
                     incFileSrc = LoadProjectFile proj ipath;
                     inner = m_includeCheck_while proj
                               \<lparr>src = incFileSrc, includeStack = stack',
                                lineBias = count_list incFileSrc nl, msgStack = msgStack st1\<rparr>
                               (find_str incFileSrc ''#include'' 0);
                     st2 = \<lparr>src = insert_at incLoc (src inner) (src st1), includeStack = stack',
                            lineBias = lineBias inner, msgStack = msgStack inner\<rparr>
                 in m_includeCheck_while proj st2 (find_str (src st2) ''#include'' (incLoc + 1)))))"
  by pat_completeness auto
lemma m_includeCheck_while_total: "All m_includeCheck_while_dom"
proof (relation "measures [\<lambda>(proj, st, incLoc). unvisited proj (includeStack st),
                           \<lambda>(proj, st, incLoc). pos_left (src st) incLoc]", goal_cases)
  case 1
  then show ?case by simp
next
  case (2 proj st incLoc)
  show ?case using pos_left_next [of "src st" "src st" incLoc] by simp
next
  case (3 proj st incLoc quotePos quoteEnd fileName st1 found)
  then have i: "include_for proj (include_paths proj) fileName incLoc st = (st1, found)"
    by simp
  show ?case
    using include_for_stack [OF i] pos_left_next [OF include_for_length [OF i], of incLoc]
    by simp
next
  case (4 proj st incLoc quotePos quoteEnd fileName st1 found ipath stack' incFileSrc)
  then have i: "include_for proj (include_paths proj) fileName incLoc st = (st1, Some ipath)"
    by simp
  show ?case
    using 4 include_for_stack [OF i] include_for_found [OF i] unvisited_push [of proj ipath "includeStack st"]
    by simp
next
  case (5 proj st incLoc quotePos quoteEnd fileName st1 found ipath stack' incFileSrc inner st2)
  then have i: "include_for proj (include_paths proj) fileName incLoc st = (st1, Some ipath)"
    by simp
  show ?case
    using 5 include_for_stack [OF i] include_for_found [OF i] unvisited_push [of proj ipath "includeStack st"]
    by simp
qed

termination m_includeCheck_while
  by (rule m_includeCheck_while_total)

text \<open>
  \<^verbatim>\<open>RenderEngine::m_includeCheck(std::string& src, std::vector<std::string> includeStack, int& lineBias)\<close>.
  The result holds the expanded source, the line bias and the message stack as the call
  leaves them.
\<close>

definition m_includeCheck :: "project \<Rightarrow> string \<Rightarrow> string list \<Rightarrow> nat \<Rightarrow> MessageStack \<Rightarrow> include_state" where
  "m_includeCheck proj source stack bias msgs =
     m_includeCheck_while proj
       \<lparr>src = source, includeStack = stack, lineBias = bias, msgStack = msgs\<rparr>
       (find_str source ''#include'' 0)"




section \<open>Pipeline items and passes\<close>

datatype ItemType =
  ShaderPass | ComputePass | AudioPass | RenderState | Geometry | Model | PluginItem

text \<open>
  A \<^verbatim>\<open>PipelineItem\<close>: its name, its type tag and the address of its payload
  (\<^verbatim>\<open>Data\<close>), which the cache uses as the item's identity.
\<close>

record PipelineItem =
  Name :: string
  Type :: ItemType
  Data :: nat

text \<open>
  A top-level item together with the fields of its payload that the engine reads after
  casting \<^verbatim>\<open>Data\<close> by the type tag: those of \<^verbatim>\<open>pipe::ShaderPass\<close>
  (\<^verbatim>\<open>Active\<close> to \<^verbatim>\<open>GSEntry\<close>), the \<^verbatim>\<open>Path\<close> and \<^verbatim>\<open>Entry\<close> of
  \<^verbatim>\<open>pipe::ComputePass\<close> and \<^verbatim>\<open>pipe::AudioPass\<close>, and the macros.
  The framebuffer and depth texture that \<^verbatim>\<open>m_updatePassFBO\<close> writes into the payload
  are kept in the engine state, by payload address.
\<close>

record Pass = PipelineItem +
  Active :: bool
  Items :: "PipelineItem list"
  RTCount :: nat
  RenderTextures :: "nat list"
  GSUsed :: bool
  VSPath :: string
  VSEntry :: string
  PSPath :: string
  PSEntry :: string
  GSPath :: string
  GSEntry :: string
  Path :: string
  Entry :: string
  Macros :: "ShaderMacro list"

section \<open>The graphics driver\<close>

datatype stage = GL_VERTEX_SHADER | GL_FRAGMENT_SHADER | GL_GEOMETRY_SHADER | GL_COMPUTE_SHADER

datatype ShaderLanguage = GLSL | HLSL | VulkanGLSL

text \<open>
  What the engine takes from outside and the sources at hand do not define: the compile
  status the driver reports for a source (\<^verbatim>\<open>gl::CheckShaderCompilationStatus\<close> after
  \<^verbatim>\<open>gl::CompileShader\<close>), the language of a path
  (\<^verbatim>\<open>ShaderTranscompiler::GetShaderTypeFromExtension\<close>) and the text that
  \<^verbatim>\<open>ShaderTranscompiler::Transcompile\<close> returns for a language, a path, a stage
  number and an entry point, and the depth buffer that the object manager keeps for a
  render texture (\<^verbatim>\<open>m_objects->GetRenderTexture(id)->DepthStencilBuffer\<close>).
\<close>

record driver =
  compiles :: "stage \<Rightarrow> string \<Rightarrow> bool"
  GetShaderTypeFromExtension :: "string \<Rightarrow> ShaderLanguage"
  Transcompile :: "ShaderLanguage \<Rightarrow> string \<Rightarrow> nat \<Rightarrow> string \<Rightarrow> string"
  DepthStencilBuffer :: "nat \<Rightarrow> nat"

text \<open>
  The objects the driver holds for the engine. Object names are handed out in increasing
  order and are never 0; deleting the name 0, or a name that is not alive, does nothing.
\<close>

record gl_state =
  gl_next :: nat
  gl_programs :: "nat list"
  gl_shaders :: "nat list"
  gl_framebuffers :: "nat list"

definition glCreateProgram :: "gl_state \<Rightarrow> nat \<times> gl_state" where
  "glCreateProgram g =
     (gl_next g, g\<lparr>gl_next := gl_next g + 1, gl_programs := gl_programs g @ [gl_next g]\<rparr>)"

definition glDeleteProgram :: "nat \<Rightarrow> gl_state \<Rightarrow> gl_state" where
  "glDeleteProgram p g = g\<lparr>gl_programs := removeAll p (gl_programs g)\<rparr>"

definition CompileShader :: "gl_state \<Rightarrow> nat \<times> gl_state" where
  "CompileShader g =
     (gl_next g, g\<lparr>gl_next := gl_next g + 1, gl_shaders := gl_shaders g @ [gl_next g]\<rparr>)"

definition glDeleteShader :: "nat \<Rightarrow> gl_state \<Rightarrow> gl_state" where
  "glDeleteShader s g = g\<lparr>gl_shaders := removeAll s (gl_shaders g)\<rparr>"

definition glGenFramebuffer :: "gl_state \<Rightarrow> nat \<times> gl_state" where
  "glGenFramebuffer g =
     (gl_next g, g\<lparr>gl_next := gl_next g + 1, gl_framebuffers := gl_framebuffers g @ [gl_next g]\<rparr>)"

definition glDeleteFramebuffer :: "nat \<Rightarrow> gl_state \<Rightarrow> gl_state" where
  "glDeleteFramebuffer f g = g\<lparr>gl_framebuffers := removeAll f (gl_framebuffers g)\<rparr>"

section \<open>Vectors\<close>

text \<open>
  \<^verbatim>\<open>std::vector\<close> operations by position. Reading or erasing at a position that the
  vector does not have, and inserting beyond its end, is undefined behaviour in the
  source: the model gives \<open>None\<close> there, and an engine operation that meets it has no
  result.
\<close>

definition vec_at :: "'a list \<Rightarrow> nat \<Rightarrow> 'a option" where
  "vec_at xs i = (if i < length xs then Some (xs ! i) else None)"

definition vec_insert :: "nat \<Rightarrow> 'a \<Rightarrow> 'a list \<Rightarrow> 'a list option" where
  "vec_insert i x xs = (if i \<le> length xs then Some (take i xs @ x # drop i xs) else None)"

definition vec_erase :: "nat \<Rightarrow> 'a list \<Rightarrow> 'a list option" where
  "vec_erase i xs = (if i < length xs then Some (take i xs @ drop (Suc i) xs) else None)"

definition vec_set :: "nat \<Rightarrow> 'a \<Rightarrow> 'a list \<Rightarrow> 'a list option" where
  "vec_set i x xs = (if i < length xs then Some (xs[i := x]) else None)"

lemma vec_erase_length:
  "vec_erase i xs = Some ys \<Longrightarrow> Suc (length ys) = length xs"
  by (auto simp: vec_erase_def split: if_splits)

lemma vec_insert_length:
  "vec_insert i x xs = Some ys \<Longrightarrow> length ys = Suc (length xs)"
  by (auto simp: vec_insert_def split: if_splits)

section \<open>The engine state\<close>

record ShaderPack =
  VS :: nat
  PS :: nat
  GS :: nat

text \<open>\<^verbatim>\<open>ShaderPack()\<close>: the three shader names start as 0.\<close>

definition ShaderPack0 :: ShaderPack where
  "ShaderPack0 = \<lparr>VS = 0, PS = 0, GS = 0\<rparr>"

definition MAX_RENDER_TEXTURES :: nat where
  "MAX_RENDER_TEXTURES = 16"

text \<open>
  The members of \<^verbatim>\<open>RenderEngine\<close> that the cache, the renderer and
  \<^verbatim>\<open>FlushCache\<close> use. \<^verbatim>\<open>m_cacheTimer\<close> holds the time of its last restart, in
  seconds. The maps are keyed by payload address; \<^verbatim>\<open>pass_FBO\<close> and
  \<^verbatim>\<open>pass_DepthTexture\<close> are the fields \<^verbatim>\<open>FBO\<close> and \<^verbatim>\<open>DepthTexture\<close> of the
  shader pass payloads. \<^verbatim>\<open>gl\<close> is the driver's state and \<^verbatim>\<open>m_msgs\<close> the message
  stack.
\<close>

record engine =
  m_items :: "Pass list"
  m_shaders :: "nat list"
  m_debugShaders :: "nat list"
  m_shaderSources :: "ShaderPack list"
  m_fbos :: "nat \<Rightarrow> nat list option"
  m_fboCount :: "nat \<Rightarrow> nat option"
  m_fboMS :: "nat \<Rightarrow> nat"
  m_fbosNeedUpdate :: bool
  m_cacheTimer :: real
  m_computeSupported :: bool
  m_paused :: bool
  m_debugPixelShader :: nat
  m_rtColor :: nat
  m_rtDepth :: nat
  m_rtDepthMS :: nat
  pass_FBO :: "nat \<Rightarrow> nat"
  pass_DepthTexture :: "nat \<Rightarrow> nat"
  gl :: gl_state
  m_msgs :: MessageStack

section \<open>The cache: \<^verbatim>\<open>m_cache\<close>\<close>

text \<open>The scans of \<^verbatim>\<open>m_cache\<close> for an item with the same payload address.\<close>

definition cache_found :: "nat \<Rightarrow> Pass list \<Rightarrow> bool" where
  "cache_found d xs = (d \<in> set (map Data xs))"

text \<open>\<^verbatim>\<open>v.resize(n)\<close> on a vector of names: cut, or filled up with 0.\<close>

definition resize :: "nat \<Rightarrow> nat list \<Rightarrow> nat list" where
  "resize n v = take n v @ replicate (n - length v) 0"

text \<open>
  The source text of one stage, as every compile site builds it: a GLSL file is loaded,
  its includes are expanded (from an empty include stack and a line bias of 0) and the
  macros are injected; any other language goes through the transcompiler. The line bias
  serves the parsing of the compiler's log only, which is not modelled, and is dropped.
\<close>

definition stage_source :: "driver \<Rightarrow> project \<Rightarrow> string \<Rightarrow> nat \<Rightarrow> string \<Rightarrow> ShaderMacro list
    \<Rightarrow> MessageStack \<Rightarrow> string \<times> MessageStack" where
  "stage_source drv proj path n entry macros msgs =
     (if GetShaderTypeFromExtension drv path = GLSL
      then (let r = m_includeCheck proj (LoadProjectFile proj path) [] 0 msgs
            in (m_applyMacros (src r) macros, msgStack r))
      else (Transcompile drv (GetShaderTypeFromExtension drv path) path n entry, msgs))"

text \<open>
  The geometry stage of a shader pass in \<^verbatim>\<open>m_cache\<close>: the shader name (0 when the
  stage is not used), \<^verbatim>\<open>gsCompiled\<close>, the driver state and the message stack.
\<close>

definition cache_geometry_stage :: "driver \<Rightarrow> project \<Rightarrow> Pass \<Rightarrow> gl_state \<Rightarrow> MessageStack
    \<Rightarrow> nat \<times> bool \<times> gl_state \<times> MessageStack" where
  "cache_geometry_stage drv proj it g msgs =
     (if GSUsed it \<and> length (GSEntry it) > 0 \<and> length (GSPath it) > 0 then
        (let msgs1 = msgs\<lparr>CurrentItemType := 2\<rparr>;
             (gsContent, msgs2) = stage_source drv proj (GSPath it) 2 (GSEntry it) (Macros it) msgs1;
             msgs3 = (if GetShaderTypeFromExtension drv (GSPath it) = GLSL then msgs2
                      else msgs_Add MsgWarning (CurrentItem msgs2)
                             ''Geometry shaders are currently not supported by glslang'' msgs2);
             (gs, g1) = CompileShader g
         in (gs, compiles drv GL_GEOMETRY_SHADER gsContent, g1, msgs3))
      else (0, True, g, msgs))"

text \<open>
  The three compile steps of a shader pass in \<^verbatim>\<open>m_cache\<close>, vertex stage first:
  the new shader objects, the value of
  \<^verbatim>\<open>!vsCompiled || !psCompiled || !gsCompiled\<close>, the driver state and the message
  stack.
\<close>

definition cache_compile_ShaderPass :: "driver \<Rightarrow> project \<Rightarrow> Pass \<Rightarrow> gl_state \<Rightarrow> MessageStack
    \<Rightarrow> ShaderPack \<times> bool \<times> gl_state \<times> MessageStack" where
  "cache_compile_ShaderPass drv proj it g msgs =
     (let msgs1 = msgs\<lparr>CurrentItem := Name it, CurrentItemType := 0\<rparr>;
          (vsContent, msgs2) = stage_source drv proj (VSPath it) 0 (VSEntry it) (Macros it) msgs1;
          (vs, g2) = CompileShader g;
          vsCompiled = compiles drv GL_VERTEX_SHADER vsContent;
          msgs3 = msgs2\<lparr>CurrentItemType := 1\<rparr>;
          (psContent, msgs4) = stage_source drv proj (PSPath it) 1 (PSEntry it) (Macros it) msgs3;
          (ps, g3) = CompileShader g2;
          psCompiled = compiles drv GL_FRAGMENT_SHADER psContent;
          (gs, gsCompiled, g4, msgs5) = cache_geometry_stage drv proj it g3 msgs4
      in (\<lparr>VS = vs, PS = ps, GS = gs\<rparr>, \<not> vsCompiled \<or> \<not> psCompiled \<or> \<not> gsCompiled, g4, msgs5))"

text \<open>
  The branch of the addition loop for an item of type \<^verbatim>\<open>ShaderPass\<close> that the
  cache does not hold yet, at position \<open>i\<close> of the pipeline list. Uniform metadata
  (\<^verbatim>\<open>Variables\<close>) and the log are left out.
\<close>

definition cache_ShaderPass :: "driver \<Rightarrow> project \<Rightarrow> Pass \<Rightarrow> nat \<Rightarrow> engine \<Rightarrow> engine option" where
  "cache_ShaderPass drv proj it i e = do {
     items1 \<leftarrow> vec_insert i it (m_items e);
     shaders1 \<leftarrow> vec_insert i 0 (m_shaders e);
     dbg1 \<leftarrow> vec_insert i 0 (m_debugShaders e);
     srcs1 \<leftarrow> vec_insert i ShaderPack0 (m_shaderSources e);
     let e1 = e\<lparr>m_items := items1, m_shaders := shaders1, m_debugShaders := dbg1,
                m_shaderSources := srcs1\<rparr>;
     if length (VSPath it) = 0 \<or> length (PSPath it) = 0 then Some e1
     else do {
       pack \<leftarrow> vec_at srcs1 i;
       let g1 = glDeleteShader (GS pack) (glDeleteShader (PS pack) (glDeleteShader (VS pack) (gl e1)));
       let fbos1 = (m_fbos e1)(Data it \<mapsto>
                     resize MAX_RENDER_TEXTURES (case m_fbos e1 (Data it) of None \<Rightarrow> [] | Some v \<Rightarrow> v));
       let (pack', failed, g4, msgs5) = cache_compile_ShaderPass drv proj it g1 (m_msgs e1);
       old \<leftarrow> vec_at shaders1 i;
       let g5 = (if old \<noteq> 0 then glDeleteProgram old g4 else g4);
       oldDbg \<leftarrow> vec_at dbg1 i;
       let g6 = (if oldDbg \<noteq> 0 then glDeleteProgram oldDbg g5 else g5);
       srcs2 \<leftarrow> vec_set i pack' srcs1;
       if failed then do {
         shaders2 \<leftarrow> vec_set i 0 shaders1;
         Some (e1\<lparr>m_shaders := shaders2, m_shaderSources := srcs2, m_fbos := fbos1, gl := g6,
                  m_msgs := msgs_Add MsgError (Name it) ''Failed to compile the shader'' msgs5\<rparr>)
       } else do {
         let (prog, g7) = glCreateProgram g6;
         shaders2 \<leftarrow> vec_set i prog shaders1;
         let (dbgProg, g8) = glCreateProgram g7;
         dbg2 \<leftarrow> vec_set i dbgProg dbg1;
         Some (e1\<lparr>m_shaders := shaders2, m_debugShaders := dbg2, m_shaderSources := srcs2,
                  m_fbos := fbos1, gl := g8, m_msgs := msgs_ClearGroup (Name it) msgs5\<rparr>)
       }
     }
   }"

text \<open>The branch for an item of type \<^verbatim>\<open>ComputePass\<close>, when compute is supported.\<close>

definition cache_ComputePass :: "driver \<Rightarrow> project \<Rightarrow> Pass \<Rightarrow> nat \<Rightarrow> engine \<Rightarrow> engine option" where
  "cache_ComputePass drv proj it i e = do {
     items1 \<leftarrow> vec_insert i it (m_items e);
     shaders1 \<leftarrow> vec_insert i 0 (m_shaders e);
     srcs1 \<leftarrow> vec_insert i ShaderPack0 (m_shaderSources e);
     let e1 = e\<lparr>m_items := items1, m_shaders := shaders1, m_shaderSources := srcs1\<rparr>;
     if length (Path it) = 0 then Some e1
     else do {
       let msgs1 = (m_msgs e1)\<lparr>CurrentItem := Name it, CurrentItemType := 3\<rparr>;
       let (content, msgs2) = stage_source drv proj (Path it) 3 (Entry it) (Macros it) msgs1;
       let (cs, g1) = CompileShader (gl e1);
       let compiled = compiles drv GL_COMPUTE_SHADER content;
       old \<leftarrow> vec_at shaders1 i;
       let g2 = (if old \<noteq> 0 then glDeleteProgram old g1 else g1);
       srcs2 \<leftarrow> vec_set i \<lparr>VS = 0, PS = 0, GS = 0\<rparr> srcs1;
       if \<not> compiled then do {
         shaders2 \<leftarrow> vec_set i 0 shaders1;
         Some (e1\<lparr>m_shaders := shaders2, m_shaderSources := srcs2, gl := g2,
                  m_msgs := msgs_Add MsgError (Name it) ''Failed to compile the compute shader'' msgs2\<rparr>)
       } else do {
         let (prog, g3) = glCreateProgram g2;
         shaders2 \<leftarrow> vec_set i prog shaders1;
         Some (e1\<lparr>m_shaders := shaders2, m_shaderSources := srcs2, gl := g3,
                  m_msgs := msgs_ClearGroup (Name it) msgs2\<rparr>)
       }
     }
   }"

text \<open>
  The branches for \<^verbatim>\<open>AudioPass\<close> and \<^verbatim>\<open>PluginItem\<close>: the item enters the three
  vectors; the audio stream compiles its source itself, outside the engine.
\<close>

definition cache_AudioPass :: "Pass \<Rightarrow> nat \<Rightarrow> engine \<Rightarrow> engine option" where
  "cache_AudioPass it i e = do {
     items1 \<leftarrow> vec_insert i it (m_items e);
     shaders1 \<leftarrow> vec_insert i 0 (m_shaders e);
     srcs1 \<leftarrow> vec_insert i ShaderPack0 (m_shaderSources e);
     Some (e\<lparr>m_items := items1, m_shaders := shaders1, m_shaderSources := srcs1,
             m_msgs := (m_msgs e)\<lparr>CurrentItem := Name it, CurrentItemType := 1\<rparr>\<rparr>)
   }"

definition cache_PluginItem :: "Pass \<Rightarrow> nat \<Rightarrow> engine \<Rightarrow> engine option" where
  "cache_PluginItem it i e = do {
     items1 \<leftarrow> vec_insert i it (m_items e);
     shaders1 \<leftarrow> vec_insert i 0 (m_shaders e);
     srcs1 \<leftarrow> vec_insert i ShaderPack0 (m_shaderSources e);
     Some (e\<lparr>m_items := items1, m_shaders := shaders1, m_shaderSources := srcs1\<rparr>)
   }"

text \<open>One round of the loop "check if some item was added", for position \<open>i\<close>.\<close>

definition cache_add :: "driver \<Rightarrow> project \<Rightarrow> Pass list \<Rightarrow> nat \<Rightarrow> engine \<Rightarrow> engine option" where
  "cache_add drv proj items i e =
     (if cache_found (Data (items ! i)) (m_items e) then Some e
      else if Type (items ! i) = ShaderPass then cache_ShaderPass drv proj (items ! i) i e
      else if Type (items ! i) = ComputePass \<and> m_computeSupported e
        then cache_ComputePass drv proj (items ! i) i e
      else if Type (items ! i) = AudioPass then cache_AudioPass (items ! i) i e
      else if Type (items ! i) = PluginItem then cache_PluginItem (items ! i) i e
      else Some e)"

fun cache_add_loop :: "driver \<Rightarrow> project \<Rightarrow> Pass list \<Rightarrow> nat list \<Rightarrow> engine \<Rightarrow> engine option" where
  "cache_add_loop drv proj items [] e = Some e"
| "cache_add_loop drv proj items (i # rest) e =
     (case cache_add drv proj items i e of
        None \<Rightarrow> None
      | Some e' \<Rightarrow> cache_add_loop drv proj items rest e')"

text \<open>
  One round of the loop "check if some item was removed", at position \<open>i\<close> of the
  cache, for an entry that the pipeline list no longer holds.
\<close>

definition cache_remove :: "nat \<Rightarrow> engine \<Rightarrow> engine option" where
  "cache_remove i e = do {
     s \<leftarrow> vec_at (m_shaders e) i;
     d \<leftarrow> vec_at (m_debugShaders e) i;
     it \<leftarrow> vec_at (m_items e) i;
     let g = glDeleteProgram d (glDeleteProgram s (gl e));
     let fbos = (if Type it = ShaderPass then (m_fbos e)(Data it := None) else m_fbos e);
     items1 \<leftarrow> vec_erase i (m_items e);
     shaders1 \<leftarrow> vec_erase i (m_shaders e);
     dbg1 \<leftarrow> vec_erase i (m_debugShaders e);
     srcs1 \<leftarrow> vec_erase i (m_shaderSources e);
     Some (e\<lparr>m_items := items1, m_shaders := shaders1, m_debugShaders := dbg1,
             m_shaderSources := srcs1, m_fbos := fbos, gl := g\<rparr>)
   }"

lemma cache_remove_length:
  assumes "cache_remove i e = Some e'"
  shows "length (m_items e') \<le> length (m_items e)"
proof -
  from assms obtain items1 where
    a: "vec_erase i (m_items e) = Some items1" and c: "m_items e' = items1"
    by (auto simp: cache_remove_def Let_def split: bind_splits)
  from vec_erase_length [OF a] c show ?thesis by simp
qed

function cache_remove_loop :: "Pass list \<Rightarrow> nat \<Rightarrow> engine \<Rightarrow> engine option" where
  "cache_remove_loop items i e =
     (if i < length (m_items e) then
        (if \<not> cache_found (Data (m_items e ! i)) items then
           (case cache_remove i e of
              None \<Rightarrow> None
            | Some e' \<Rightarrow> cache_remove_loop items (i + 1) e')
         else cache_remove_loop items (i + 1) e)
      else Some e)"
  by pat_completeness auto
termination cache_remove_loop
proof (relation "measure (\<lambda>(items, i, e). length (m_items e) - i)", goal_cases)
  case 1
  then show ?case by simp
next
  case (2 items i e e')
  then show ?case using cache_remove_length [of i e e'] by simp
next
  case (3 items i e)
  then show ?case by simp
qed

declare cache_remove_loop.simps [simp del]

text \<open>
  The move of the cache entry at position \<open>i\<close> for the pipeline position \<open>j\<close>
  that holds the same payload: the entry is erased at \<open>i\<close> and inserted at
  \<^verbatim>\<open>dest\<close>, in each of the four vectors.
\<close>

definition cache_move :: "Pass list \<Rightarrow> nat \<Rightarrow> nat \<Rightarrow> engine \<Rightarrow> engine option" where
  "cache_move items i j e = do {
     let dest = (if j > i then j - 1 else j);
     items1 \<leftarrow> vec_erase i (m_items e);
     items2 \<leftarrow> vec_insert dest (items ! j) items1;
     sCopy \<leftarrow> vec_at (m_shaders e) i;
     sdbgCopy \<leftarrow> vec_at (m_debugShaders e) i;
     ssrcCopy \<leftarrow> vec_at (m_shaderSources e) i;
     shaders1 \<leftarrow> vec_erase i (m_shaders e);
     shaders2 \<leftarrow> vec_insert dest sCopy shaders1;
     dbg1 \<leftarrow> vec_erase i (m_debugShaders e);
     dbg2 \<leftarrow> vec_insert dest sdbgCopy dbg1;
     srcs1 \<leftarrow> vec_erase i (m_shaderSources e);
     srcs2 \<leftarrow> vec_insert dest ssrcCopy srcs1;
     Some (e\<lparr>m_items := items2, m_shaders := shaders2, m_debugShaders := dbg2,
             m_shaderSources := srcs2\<rparr>)
   }"

text \<open>
  The inner loop of "check if the order of the items changed", over the positions
  \<open>j\<close> of the pipeline list; the cache entry at \<open>i\<close> is read again in every round.
\<close>

fun cache_reorder_inner :: "Pass list \<Rightarrow> nat \<Rightarrow> nat list \<Rightarrow> engine \<Rightarrow> engine option" where
  "cache_reorder_inner items i [] e = Some e"
| "cache_reorder_inner items i (j # rest) e =
     (case vec_at (m_items e) i of
        None \<Rightarrow> None
      | Some mi \<Rightarrow>
          if Data (items ! j) = Data mi then
            (case cache_move items i j e of
               None \<Rightarrow> None
             | Some e' \<Rightarrow> cache_reorder_inner items i rest e')
          else cache_reorder_inner items i rest e)"

lemma cache_move_length:
  assumes "cache_move items i j e = Some e'"
  shows "length (m_items e') = length (m_items e)"
proof -
  from assms obtain items1 items2 where
    a: "vec_erase i (m_items e) = Some items1"
    and b: "vec_insert (if j > i then j - 1 else j) (items ! j) items1 = Some items2"
    and c: "m_items e' = items2"
    by (auto simp: cache_move_def Let_def split: bind_splits)
  from vec_erase_length [OF a] vec_insert_length [OF b] c show ?thesis by simp
qed

lemma cache_reorder_inner_length:
  "cache_reorder_inner items i js e = Some e' \<Longrightarrow> length (m_items e') = length (m_items e)"
proof (induction js arbitrary: e)
  case Nil
  then show ?case by simp
next
  case (Cons j js)
  then show ?case
    by (auto split: option.splits if_splits dest!: cache_move_length)
qed

function cache_reorder_loop :: "Pass list \<Rightarrow> nat \<Rightarrow> engine \<Rightarrow> engine option" where
  "cache_reorder_loop items i e =
     (if i < length (m_items e) then
        (case vec_at items i of
           None \<Rightarrow> None
         | Some it \<Rightarrow>
             if Data it \<noteq> Data (m_items e ! i) then
               (case cache_reorder_inner items i [0..<length items] e of
                  None \<Rightarrow> None
                | Some e' \<Rightarrow> cache_reorder_loop items (i + 1) e')
             else cache_reorder_loop items (i + 1) e)
      else Some e)"
  by pat_completeness auto
termination cache_reorder_loop
proof (relation "measure (\<lambda>(items, i, e). length (m_items e) - i)", goal_cases)
  case 1
  then show ?case by simp
next
  case (2 items i e it e')
  then show ?case using cache_reorder_inner_length [of items i "[0..<length items]" e e'] by simp
next
  case (3 items i e it)
  then show ?case by simp
qed

declare cache_reorder_loop.simps [simp del]

text \<open>
  \<^verbatim>\<open>RenderEngine::m_cache()\<close>. \<open>items\<close> is the list of the pipeline manager
  and \<open>now\<close> the time of the call, so that \<^verbatim>\<open>m_cacheTimer.GetElapsedTime()\<close> is
  \<open>now - m_cacheTimer e\<close> and \<^verbatim>\<open>Restart()\<close> stores \<open>now\<close>.
\<close>

definition m_cache :: "driver \<Rightarrow> project \<Rightarrow> Pass list \<Rightarrow> real \<Rightarrow> engine \<Rightarrow> engine option" where
  "m_cache drv proj items now e =
     (if length (m_items e) = length items \<and> \<not> (now - m_cacheTimer e > 0.5) then Some e
      else do {
        let e0 = (if length (m_items e) = length items then e\<lparr>m_cacheTimer := now\<rparr> else e);
        e1 \<leftarrow> cache_add_loop drv proj items [0..<length items] e0;
        e2 \<leftarrow> cache_remove_loop items 0 e1;
        cache_reorder_loop items 0 e2
      })"

section \<open>\<^verbatim>\<open>FlushCache\<close>\<close>

text \<open>The loop of \<^verbatim>\<open>FlushCache\<close> that deletes the shader objects and programs.\<close>

fun FlushCache_loop :: "engine \<Rightarrow> nat list \<Rightarrow> gl_state \<Rightarrow> gl_state option" where
  "FlushCache_loop e [] g = Some g"
| "FlushCache_loop e (i # rest) g =
     (case vec_at (m_shaderSources e) i of
        None \<Rightarrow> None
      | Some pack \<Rightarrow>
          FlushCache_loop e rest
            (glDeleteProgram (m_shaders e ! i)
               (glDeleteShader (GS pack) (glDeleteShader (PS pack) (glDeleteShader (VS pack) g)))))"

text \<open>
  \<^verbatim>\<open>RenderEngine::FlushCache()\<close>. The storage of the window textures and
  \<^verbatim>\<open>m_lastSize\<close> are not modelled.
\<close>

definition FlushCache :: "engine \<Rightarrow> engine option" where
  "FlushCache e = do {
     g \<leftarrow> FlushCache_loop e [0..<length (m_shaders e)] (gl e);
     Some (e\<lparr>m_fbos := Map.empty, m_fboCount := Map.empty, m_items := [], m_shaders := [],
             m_shaderSources := [], m_fbosNeedUpdate := True, gl := g\<rparr>)
   }"

section \<open>Framebuffers: \<^verbatim>\<open>m_updatePassFBO\<close>\<close>

text \<open>
  The first loop: does a render texture of the pass differ from the snapshot? It stops
  at the first difference.
\<close>

fun fbo_changed :: "nat list \<Rightarrow> nat list \<Rightarrow> nat list \<Rightarrow> bool option" where
  "fbo_changed rts snapshot [] = Some False"
| "fbo_changed rts snapshot (i # rest) =
     (case vec_at rts i of
        None \<Rightarrow> None
      | Some rt \<Rightarrow>
          (case vec_at snapshot i of
             None \<Rightarrow> None
           | Some old \<Rightarrow> if rt \<noteq> old then Some True else fbo_changed rts snapshot rest))"

text \<open>The second loop: the snapshot takes the render textures of the pass.\<close>

fun fbo_store :: "nat list \<Rightarrow> nat list \<Rightarrow> nat list \<Rightarrow> nat list option" where
  "fbo_store rts snapshot [] = Some snapshot"
| "fbo_store rts snapshot (i # rest) =
     (case vec_at rts i of
        None \<Rightarrow> None
      | Some rt \<Rightarrow>
          (case vec_set i rt snapshot of
             None \<Rightarrow> None
           | Some snapshot' \<Rightarrow> fbo_store rts snapshot' rest))"

text \<open>
  \<^verbatim>\<open>RenderEngine::m_updatePassFBO(pipe::ShaderPass* pass)\<close>. A map entry that is
  missing is created empty (the vector) or 0 (the count) by \<^verbatim>\<open>operator[]\<close>. The
  attachments of the two new framebuffers are not modelled.
\<close>

definition m_updatePassFBO :: "driver \<Rightarrow> Pass \<Rightarrow> engine \<Rightarrow> engine option" where
  "m_updatePassFBO drv pass e = do {
     let snapshot = (case m_fbos e (Data pass) of None \<Rightarrow> [] | Some v \<Rightarrow> v);
     changed1 \<leftarrow> fbo_changed (RenderTextures pass) snapshot [0..<RTCount pass];
     snapshot' \<leftarrow> fbo_store (RenderTextures pass) snapshot [0..<RTCount pass];
     let count = (case m_fboCount e (Data pass) of None \<Rightarrow> 0 | Some c \<Rightarrow> c);
     let changed = (changed1 \<or> count \<noteq> RTCount pass);
     let e1 = e\<lparr>m_fbos := (m_fbos e)(Data pass \<mapsto> snapshot'),
                m_fboCount := (m_fboCount e)(Data pass \<mapsto> RTCount pass)\<rparr>;
     if \<not> changed \<and> \<not> m_fbosNeedUpdate e1 then Some e1
     else do {
       lastID \<leftarrow> vec_at (RenderTextures pass) (RTCount pass - 1);
       let depthID = (if lastID = m_rtColor e1 then m_rtDepth e1 else DepthStencilBuffer drv lastID);
       let g1 = (if pass_FBO e1 (Data pass) \<noteq> 0
                 then glDeleteFramebuffer (m_fboMS e1 (Data pass))
                        (glDeleteFramebuffer (pass_FBO e1 (Data pass)) (gl e1))
                 else gl e1);
       let (fbo, g2) = glGenFramebuffer g1;
       let (fboMS, g3) = glGenFramebuffer g2;
       Some (e1\<lparr>pass_DepthTexture := (pass_DepthTexture e1)(Data pass := depthID),
                pass_FBO := (pass_FBO e1)(Data pass := fbo),
                m_fboMS := (m_fboMS e1)(Data pass := fboMS),
                m_fbosNeedUpdate := False, gl := g3\<rparr>)
     }
   }"

section \<open>The frame: \<^verbatim>\<open>Render\<close>\<close>

text \<open>
  The cache holds pointers to the pipeline items, and the fields of an item and of its
  payload are read through the pointer when they are used, so that an edit of a pass
  after it was cached is seen by the next frame. The model's cache holds the values an
  item had when it was cached; \<open>live\<close> gives the present values of a cached entry,
  those of the item of the pipeline list \<open>items\<close> with the same payload address. For
  an entry whose item has left the pipeline list the source reads through a dangling
  pointer; the model reads the cached values there.
\<close>

definition live :: "Pass list \<Rightarrow> Pass \<Rightarrow> Pass" where
  "live items it =
     (case List.find (\<lambda>p. Data p = Data it) items of Some p \<Rightarrow> p | None \<Rightarrow> it)"

definition DEBUG_ID_START :: int where
  "DEBUG_ID_START = 1"

text \<open>
  The colour a debug draw writes for the counter \<^verbatim>\<open>debugID\<close>: the bytes
  \<^verbatim>\<open>debugID & 0xFF\<close>, \<^verbatim>\<open>(debugID & 0xFF00) >> 8\<close> and
  \<^verbatim>\<open>(debugID & 0xFF0000) >> 16\<close> of the counter, which is never negative; each is
  written as \<open>byte / 255\<close> into a channel of 8 bits and read back as the same byte.
  \<open>pixel_id\<close> is the number \<^verbatim>\<open>DebugPixelPick\<close> builds from the three bytes of a
  pixel, \<^verbatim>\<open>(pxData[0] << 0) | (pxData[1] << 8) | (pxData[2] << 16)\<close>.
\<close>

definition debug_color :: "int \<Rightarrow> nat \<times> nat \<times> nat" where
  "debug_color debugID =
     (nat (debugID mod 256), nat (debugID div 256 mod 256), nat (debugID div 65536 mod 256))"

definition pixel_id :: "nat \<times> nat \<times> nat \<Rightarrow> int" where
  "pixel_id px = (case px of (r, g, b) \<Rightarrow> int r + int g * 256 + int b * 65536)"

text \<open>
  What a frame does with the passes, in order: the program it binds for a pass, the draw
  of a geometry or model item (in debug mode with the colour written to
  \<^verbatim>\<open>_sed_dbg_pixel_color\<close>), the draw a plugin item of a pass is handed to its
  plugin, the dispatch of a compute pass, the render step of an audio stream and the
  execution of a top-level plugin item.
\<close>

datatype render_event =
    UseProgram Pass nat
  | Draw Pass PipelineItem "(nat \<times> nat \<times> nat) option"
  | PluginDraw Pass PipelineItem
  | Dispatch Pass
  | RenderAudio Pass
  | ExecutePlugin Pass

text \<open>
  The loop over the items of a shader pass, with the counter \<^verbatim>\<open>debugID\<close>. Render
  states change driver state only and leave no event; picking is modelled on its own
  below.
\<close>

fun render_items :: "bool \<Rightarrow> Pass \<Rightarrow> PipelineItem list \<Rightarrow> int \<Rightarrow> render_event list
    \<Rightarrow> int \<times> render_event list" where
  "render_items isDebug pass [] debugID evs = (debugID, evs)"
| "render_items isDebug pass (item # rest) debugID evs =
     (if Type item = Geometry \<or> Type item = Model then
        (if isDebug
         then render_items isDebug pass rest (debugID + 1)
                (evs @ [Draw pass item (Some (debug_color debugID))])
         else render_items isDebug pass rest debugID (evs @ [Draw pass item None]))
      else if Type item = PluginItem
        then render_items isDebug pass rest debugID (evs @ [PluginDraw pass item])
      else render_items isDebug pass rest debugID evs)"

text \<open>
  One round of the loop over \<^verbatim>\<open>m_items\<close>, for position \<open>i\<close>; \<open>items\<close> is
  the pipeline list, for the present values of the entry.
\<close>

definition render_pass :: "driver \<Rightarrow> Pass list \<Rightarrow> bool \<Rightarrow> nat \<Rightarrow> engine \<times> int \<times> render_event list
    \<Rightarrow> (engine \<times> int \<times> render_event list) option" where
  "render_pass drv items isDebug i st =
     (case st of (e, debugID, evs) \<Rightarrow>
        (let it = live items (m_items e ! i) in
         if Type it = ShaderPass then
           (if \<not> Active it \<or> length (Items it) \<le> 0 \<or> RTCount it = 0 \<or> (isDebug \<and> GSUsed it)
            then Some st
            else
              (case m_updatePassFBO drv it e of
                 None \<Rightarrow> None
               | Some e1 \<Rightarrow>
                   (case vec_at (m_shaders e1) i of
                      None \<Rightarrow> None
                    | Some prog \<Rightarrow>
                        if prog = 0 then Some (e1, debugID, evs)
                        else
                          (case (if isDebug then vec_at (m_debugShaders e1) i else Some prog) of
                             None \<Rightarrow> None
                           | Some bound \<Rightarrow>
                               (case render_items isDebug it (Items it) debugID
                                       (evs @ [UseProgram it bound]) of
                                  (debugID', evs') \<Rightarrow> Some (e1, debugID', evs'))))))
         else if Type it = ComputePass \<and> \<not> isDebug \<and> \<not> m_paused e \<and> m_computeSupported e then
           (case vec_at (m_shaders e) i of
              None \<Rightarrow> None
            | Some prog \<Rightarrow>
                if prog = 0 then Some st
                else Some (e, debugID, evs @ [UseProgram it prog, Dispatch it]))
         else if Type it = AudioPass \<and> \<not> isDebug then Some (e, debugID, evs @ [RenderAudio it])
         else if Type it = PluginItem \<and> \<not> isDebug then Some (e, debugID, evs @ [ExecutePlugin it])
         else Some st))"

fun render_loop :: "driver \<Rightarrow> Pass list \<Rightarrow> bool \<Rightarrow> nat list \<Rightarrow> engine \<times> int \<times> render_event list
    \<Rightarrow> (engine \<times> int \<times> render_event list) option" where
  "render_loop drv items isDebug [] st = Some st"
| "render_loop drv items isDebug (i # rest) st =
     (case render_pass drv items isDebug i st of
        None \<Rightarrow> None
      | Some st' \<Rightarrow> render_loop drv items isDebug rest st')"

text \<open>
  \<^verbatim>\<open>RenderEngine::Render(int width, int height, bool isDebug)\<close>: the cache is
  brought up to date and the passes of \<^verbatim>\<open>m_items\<close> are run in order. The result is
  the engine state and the events of the frame. The resize of the window textures, the
  plugin hooks, the frame index and the end of a pick are not modelled.
\<close>

definition Render :: "driver \<Rightarrow> project \<Rightarrow> Pass list \<Rightarrow> real \<Rightarrow> bool \<Rightarrow> engine
    \<Rightarrow> (engine \<times> render_event list) option" where
  "Render drv proj items now isDebug e = do {
     e1 \<leftarrow> m_cache drv proj items now e;
     (e2, debugID, evs) \<leftarrow>
       render_loop drv items isDebug [0..<length (m_items e1)] (e1, DEBUG_ID_START, []);
     Some (e2, evs)
   }"

section \<open>\<^verbatim>\<open>GetPipelineItemByID\<close>\<close>

text \<open>
  The inner loop of \<^verbatim>\<open>GetPipelineItemByID\<close>: the item that holds the number
  \<open>ident\<close> (the \<^verbatim>\<open>id\<close> of the source), or the counter after the items of the
  pass.
\<close>

fun find_item_by_id :: "int \<Rightarrow> PipelineItem list \<Rightarrow> int \<Rightarrow> PipelineItem + int" where
  "find_item_by_id ident [] debugID = Inr debugID"
| "find_item_by_id ident (item # rest) debugID =
     (if Type item = Geometry \<or> Type item = Model then
        (if debugID = ident then Inl item else find_item_by_id ident rest (debugID + 1))
      else find_item_by_id ident rest debugID)"

text \<open>
  The outer loop. The result \<open>None\<close> stands for a read of \<^verbatim>\<open>m_shaders\<close> out of
  range, \<open>Some None\<close> for the pair of null pointers and \<open>Some (Some (it, item))\<close>
  for the owning pass and the item.
\<close>

fun GetPipelineItemByID_loop :: "engine \<Rightarrow> Pass list \<Rightarrow> int \<Rightarrow> nat list \<Rightarrow> int
    \<Rightarrow> (Pass \<times> PipelineItem) option option" where
  "GetPipelineItemByID_loop e items ident [] debugID = Some None"
| "GetPipelineItemByID_loop e items ident (i # rest) debugID =
     (let it = live items (m_items e ! i) in
      if Type it = ShaderPass then
        (if \<not> Active it \<or> length (Items it) \<le> 0 \<or> RTCount it = 0
         then GetPipelineItemByID_loop e items ident rest debugID
         else
           (case vec_at (m_shaders e) i of
              None \<Rightarrow> None
            | Some prog \<Rightarrow>
                if prog = 0 then GetPipelineItemByID_loop e items ident rest debugID
                else
                  (case find_item_by_id ident (Items it) debugID of
                     Inl item \<Rightarrow> Some (Some (it, item))
                   | Inr debugID' \<Rightarrow> GetPipelineItemByID_loop e items ident rest debugID')))
      else GetPipelineItemByID_loop e items ident rest debugID)"

text \<open>
  \<^verbatim>\<open>RenderEngine::GetPipelineItemByID(int id)\<close>, with the pipeline list for the
  present values of the cached entries.
\<close>

definition GetPipelineItemByID :: "engine \<Rightarrow> Pass list \<Rightarrow> int
    \<Rightarrow> (Pass \<times> PipelineItem) option option" where
  "GetPipelineItemByID e items ident =
     GetPipelineItemByID_loop e items ident [0..<length (m_items e)] DEBUG_ID_START"

section \<open>\<^verbatim>\<open>Recompile\<close> and \<^verbatim>\<open>RecompileFromSource\<close>\<close>

text \<open>The geometry stage of a shader pass in \<^verbatim>\<open>Recompile\<close>.\<close>

definition recompile_geometry_stage :: "driver \<Rightarrow> project \<Rightarrow> string \<Rightarrow> Pass \<Rightarrow> gl_state
    \<Rightarrow> MessageStack \<Rightarrow> nat \<times> bool \<times> gl_state \<times> MessageStack" where
  "recompile_geometry_stage drv proj name it g msgs =
     (if GSUsed it \<and> length (GSPath it) > 0 \<and> length (GSEntry it) > 0 then
        (let msgs1 = msgs\<lparr>CurrentItemType := 2\<rparr>;
             (gsContent, msgs2) = stage_source drv proj (GSPath it) 2 (GSEntry it) (Macros it) msgs1;
             msgs3 = (if GetShaderTypeFromExtension drv (GSPath it) = GLSL then msgs2
                      else msgs_Add MsgWarning name
                             ''HLSL geometry shaders are currently not supported by glslang'' msgs2);
             (gs, g1) = CompileShader g
         in (gs, compiles drv GL_GEOMETRY_SHADER gsContent, g1, msgs3))
      else (0, True, g, msgs))"

text \<open>
  The three compile steps of a shader pass in \<^verbatim>\<open>Recompile\<close>, fragment stage
  first.
\<close>

definition Recompile_compile_ShaderPass :: "driver \<Rightarrow> project \<Rightarrow> string \<Rightarrow> Pass \<Rightarrow> gl_state
    \<Rightarrow> MessageStack \<Rightarrow> ShaderPack \<times> bool \<times> gl_state \<times> MessageStack" where
  "Recompile_compile_ShaderPass drv proj name it g msgs =
     (let msgs2 = msgs\<lparr>CurrentItemType := 1\<rparr>;
          (psContent, msgs3) = stage_source drv proj (PSPath it) 1 (PSEntry it) (Macros it) msgs2;
          (ps, g2) = CompileShader g;
          psCompiled = compiles drv GL_FRAGMENT_SHADER psContent;
          msgs4 = msgs3\<lparr>CurrentItemType := 0\<rparr>;
          (vsContent, msgs5) = stage_source drv proj (VSPath it) 0 (VSEntry it) (Macros it) msgs4;
          (vs, g3) = CompileShader g2;
          vsCompiled = compiles drv GL_VERTEX_SHADER vsContent;
          (gs, gsCompiled, g4, msgs6) = recompile_geometry_stage drv proj name it g3 msgs5
      in (\<lparr>VS = vs, PS = ps, GS = gs\<rparr>, \<not> vsCompiled \<or> \<not> psCompiled \<or> \<not> gsCompiled, g4, msgs6))"

text \<open>The branch of \<^verbatim>\<open>Recompile\<close> for a shader pass at position \<open>i\<close>.\<close>

definition Recompile_ShaderPass :: "driver \<Rightarrow> project \<Rightarrow> string \<Rightarrow> Pass \<Rightarrow> nat \<Rightarrow> engine
    \<Rightarrow> engine option" where
  "Recompile_ShaderPass drv proj name it i e = do {
     let msgs1 = msgs_ClearGroup name (m_msgs e);
     pack \<leftarrow> vec_at (m_shaderSources e) i;
     let g1 = glDeleteShader (GS pack) (glDeleteShader (PS pack) (glDeleteShader (VS pack) (gl e)));
     let (pack', failed, g4, msgs6) = Recompile_compile_ShaderPass drv proj name it g1 msgs1;
     old \<leftarrow> vec_at (m_shaders e) i;
     let g5 = (if old \<noteq> 0 then glDeleteProgram old g4 else g4);
     srcs1 \<leftarrow> vec_set i pack' (m_shaderSources e);
     if failed then do {
       shaders1 \<leftarrow> vec_set i 0 (m_shaders e);
       Some (e\<lparr>m_shaders := shaders1, m_shaderSources := srcs1, gl := g5,
               m_msgs := msgs_Add MsgError name ''Failed to compile the shader(s)'' msgs6\<rparr>)
     } else do {
       let (prog, g6) = glCreateProgram g5;
       shaders1 \<leftarrow> vec_set i prog (m_shaders e);
       Some (e\<lparr>m_shaders := shaders1, m_shaderSources := srcs1, gl := g6,
               m_msgs := msgs_Add MsgMessage name ''Compiled the shaders.'' msgs6\<rparr>)
     }
   }"

text \<open>The branch of \<^verbatim>\<open>Recompile\<close> for a compute pass.\<close>

definition Recompile_ComputePass :: "driver \<Rightarrow> project \<Rightarrow> string \<Rightarrow> Pass \<Rightarrow> nat \<Rightarrow> engine
    \<Rightarrow> engine option" where
  "Recompile_ComputePass drv proj name it i e = do {
     let msgs1 = (msgs_ClearGroup name (m_msgs e))\<lparr>CurrentItemType := 3\<rparr>;
     let (content, msgs2) = stage_source drv proj (Path it) 3 (Entry it) (Macros it) msgs1;
     let (cs, g1) = CompileShader (gl e);
     let compiled = compiles drv GL_COMPUTE_SHADER content;
     old \<leftarrow> vec_at (m_shaders e) i;
     let g2 = (if old \<noteq> 0 then glDeleteProgram old g1 else g1);
     if \<not> compiled then do {
       shaders1 \<leftarrow> vec_set i 0 (m_shaders e);
       Some (e\<lparr>m_shaders := shaders1, gl := glDeleteShader cs g2,
               m_msgs := msgs_Add MsgError name ''Failed to compile the compute shader'' msgs2\<rparr>)
     } else do {
       let (prog, g3) = glCreateProgram g2;
       shaders1 \<leftarrow> vec_set i prog (m_shaders e);
       Some (e\<lparr>m_shaders := shaders1, gl := glDeleteShader cs g3,
               m_msgs := msgs_Add MsgMessage name ''Compiled the compute shader.'' msgs2\<rparr>)
     }
   }"

text \<open>
  One round of the loop of \<^verbatim>\<open>Recompile\<close>, on the present values of the entry. An
  audio pass is compiled by its stream and a plugin item by its plugin, outside the
  engine.
\<close>

definition Recompile_item :: "driver \<Rightarrow> project \<Rightarrow> Pass list \<Rightarrow> string \<Rightarrow> nat \<Rightarrow> engine
    \<Rightarrow> engine option" where
  "Recompile_item drv proj items name i e =
     (let item = live items (m_items e ! i) in
      if Name item = name then
        (if Type item = ShaderPass then Recompile_ShaderPass drv proj name item i e
         else if Type item = ComputePass \<and> m_computeSupported e
           then Recompile_ComputePass drv proj name item i e
         else if Type item = AudioPass
           then Some (e\<lparr>m_msgs := (msgs_ClearGroup name (m_msgs e))\<lparr>CurrentItemType := 1\<rparr>\<rparr>)
         else Some e)
      else Some e)"

fun Recompile_loop :: "driver \<Rightarrow> project \<Rightarrow> Pass list \<Rightarrow> string \<Rightarrow> nat list \<Rightarrow> engine
    \<Rightarrow> engine option" where
  "Recompile_loop drv proj items name [] e = Some e"
| "Recompile_loop drv proj items name (i # rest) e =
     (case Recompile_item drv proj items name i e of
        None \<Rightarrow> None
      | Some e' \<Rightarrow> Recompile_loop drv proj items name rest e')"

text \<open>
  The part of \<^verbatim>\<open>RenderEngine::Recompile(const char* name)\<close> before its closing
  \<^verbatim>\<open>Render()\<close>.
\<close>

definition Recompile_passes :: "driver \<Rightarrow> project \<Rightarrow> Pass list \<Rightarrow> string \<Rightarrow> engine
    \<Rightarrow> engine option" where
  "Recompile_passes drv proj items name e =
     Recompile_loop drv proj items name [0..<length (m_items e)]
       (e\<lparr>m_msgs := (m_msgs e)\<lparr>BuildOccured := True, CurrentItem := name\<rparr>\<rparr>)"

definition Recompile :: "driver \<Rightarrow> project \<Rightarrow> Pass list \<Rightarrow> real \<Rightarrow> string \<Rightarrow> engine
    \<Rightarrow> (engine \<times> render_event list) option" where
  "Recompile drv proj items now name e = do {
     e1 \<leftarrow> Recompile_passes drv proj items name e;
     Render drv proj items now False e1
   }"

text \<open>
  The compile steps of a shader pass in \<^verbatim>\<open>RecompileFromSource\<close>: a stage is
  compiled only when its source text is not empty, and keeps its old shader object
  otherwise. The result holds the shader objects, the value of
  \<^verbatim>\<open>!vsCompiled || !psCompiled || !gsCompiled\<close>, the driver state and the message
  stack.
\<close>

definition RecompileFromSource_compile :: "driver \<Rightarrow> string \<Rightarrow> string \<Rightarrow> string \<Rightarrow> string
    \<Rightarrow> Pass \<Rightarrow> ShaderPack \<Rightarrow> gl_state \<Rightarrow> MessageStack
    \<Rightarrow> ShaderPack \<times> bool \<times> gl_state \<times> MessageStack" where
  "RecompileFromSource_compile drv name vssrc pssrc gssrc it pack0 g0 msgs1 =
     (let (psCompiled, pack1, g1, msgs2) =
            (if length pssrc > 0 then
               (let (ps, g) = CompileShader g0
                in (compiles drv GL_FRAGMENT_SHADER pssrc, pack0\<lparr>PS := ps\<rparr>,
                    glDeleteShader (PS pack0) g, msgs1\<lparr>CurrentItemType := 1\<rparr>))
             else (True, pack0, g0, msgs1));
          (vsCompiled, pack2, g2, msgs3) =
            (if length vssrc > 0 then
               (let (vs, g) = CompileShader g1
                in (compiles drv GL_VERTEX_SHADER vssrc, pack1\<lparr>VS := vs\<rparr>,
                    glDeleteShader (VS pack1) g, msgs2\<lparr>CurrentItemType := 0\<rparr>))
             else (True, pack1, g1, msgs2));
          (gsCompiled, pack3, g3, msgs4) =
            (if length gssrc > 0 then
               (let g = glDeleteShader (GS pack2) g2 in
                if GSUsed it \<and> length (GSPath it) > 0 \<and> length (GSEntry it) > 0 then
                  (let (gs, g') = CompileShader g
                   in (compiles drv GL_GEOMETRY_SHADER gssrc, pack2\<lparr>GS := gs\<rparr>, g',
                       (if GetShaderTypeFromExtension drv (VSPath it) = HLSL
                        then msgs_Add MsgWarning name
                               ''HLSL geometry shaders are currently not supported by glslang'' msgs3
                        else msgs3)))
                else (True, pack2, g, msgs3))
             else (True, pack2, g2, msgs3))
      in (pack3, \<not> vsCompiled \<or> \<not> psCompiled \<or> \<not> gsCompiled, g3, msgs4))"

text \<open>The branch of \<^verbatim>\<open>RecompileFromSource\<close> for a shader pass.\<close>

definition RecompileFromSource_ShaderPass :: "driver \<Rightarrow> string \<Rightarrow> string \<Rightarrow> string \<Rightarrow> string
    \<Rightarrow> Pass \<Rightarrow> nat \<Rightarrow> engine \<Rightarrow> engine option" where
  "RecompileFromSource_ShaderPass drv name vssrc pssrc gssrc it i e = do {
     let msgs1 = msgs_ClearGroup name (m_msgs e);
     pack0 \<leftarrow> vec_at (m_shaderSources e) i;
     let (pack3, failed, g3, msgs4) =
       RecompileFromSource_compile drv name vssrc pssrc gssrc it pack0 (gl e) msgs1;
     srcs1 \<leftarrow> vec_set i pack3 (m_shaderSources e);
     old \<leftarrow> vec_at (m_shaders e) i;
     let g4 = (if old \<noteq> 0 then glDeleteProgram old g3 else g3);
     if failed then do {
       shaders1 \<leftarrow> vec_set i 0 (m_shaders e);
       Some (e\<lparr>m_shaders := shaders1, m_shaderSources := srcs1, gl := g4,
               m_msgs := msgs_Add MsgError name ''Failed to compile the shader(s)'' msgs4\<rparr>)
     } else do {
       let (prog, g5) = glCreateProgram g4;
       shaders1 \<leftarrow> vec_set i prog (m_shaders e);
       Some (e\<lparr>m_shaders := shaders1, m_shaderSources := srcs1, gl := g5,
               m_msgs := msgs_Add MsgMessage name ''Compiled the shaders.'' msgs4\<rparr>)
     }
   }"

text \<open>
  The branch for a compute pass: \<^verbatim>\<open>compiled\<close> starts as false, and the shader
  object \<^verbatim>\<open>cs\<close> is 0 when the source text is empty.
\<close>

definition RecompileFromSource_ComputePass :: "driver \<Rightarrow> string \<Rightarrow> string \<Rightarrow> Pass \<Rightarrow> nat
    \<Rightarrow> engine \<Rightarrow> engine option" where
  "RecompileFromSource_ComputePass drv name vssrc it i e = do {
     let msgs1 = msgs_ClearGroup name (m_msgs e);
     let (compiled, cs, g1, msgs2) =
       (if length vssrc > 0 then
          (let (c, g) = CompileShader (gl e)
           in (compiles drv GL_COMPUTE_SHADER vssrc, c, g, msgs1\<lparr>CurrentItemType := 3\<rparr>))
        else (False, 0, gl e, msgs1));
     old \<leftarrow> vec_at (m_shaders e) i;
     let g2 = (if old \<noteq> 0 then glDeleteProgram old g1 else g1);
     if \<not> compiled then do {
       shaders1 \<leftarrow> vec_set i 0 (m_shaders e);
       Some (e\<lparr>m_shaders := shaders1, gl := glDeleteShader cs g2,
               m_msgs := msgs_Add MsgError name ''Failed to compile the compute shader'' msgs2\<rparr>)
     } else do {
       let (prog, g3) = glCreateProgram g2;
       shaders1 \<leftarrow> vec_set i prog (m_shaders e);
       Some (e\<lparr>m_shaders := shaders1, gl := glDeleteShader cs g3,
               m_msgs := msgs_Add MsgMessage name ''Compiled the compute shader.'' msgs2\<rparr>)
     }
   }"

definition RecompileFromSource_item :: "driver \<Rightarrow> Pass list \<Rightarrow> string \<Rightarrow> string \<Rightarrow> string
    \<Rightarrow> string \<Rightarrow> nat \<Rightarrow> engine \<Rightarrow> engine option" where
  "RecompileFromSource_item drv items name vssrc pssrc gssrc i e =
     (let item = live items (m_items e ! i) in
      if Name item = name then
        (if Type item = ShaderPass
           then RecompileFromSource_ShaderPass drv name vssrc pssrc gssrc item i e
         else if Type item = ComputePass \<and> m_computeSupported e
           then RecompileFromSource_ComputePass drv name vssrc item i e
         else if Type item = AudioPass
           then Some (e\<lparr>m_msgs := msgs_ClearGroup name (m_msgs e)\<rparr>)
         else Some e)
      else Some e)"

fun RecompileFromSource_loop :: "driver \<Rightarrow> Pass list \<Rightarrow> string \<Rightarrow> string \<Rightarrow> string
    \<Rightarrow> string \<Rightarrow> nat list \<Rightarrow> engine \<Rightarrow> engine option" where
  "RecompileFromSource_loop drv items name vssrc pssrc gssrc [] e = Some e"
| "RecompileFromSource_loop drv items name vssrc pssrc gssrc (i # rest) e =
     (case RecompileFromSource_item drv items name vssrc pssrc gssrc i e of
        None \<Rightarrow> None
      | Some e' \<Rightarrow> RecompileFromSource_loop drv items name vssrc pssrc gssrc rest e')"

text \<open>The part of \<^verbatim>\<open>RecompileFromSource\<close> before its closing \<^verbatim>\<open>Render()\<close>.\<close>

definition RecompileFromSource_passes :: "driver \<Rightarrow> Pass list \<Rightarrow> string \<Rightarrow> string \<Rightarrow> string
    \<Rightarrow> string \<Rightarrow> engine \<Rightarrow> engine option" where
  "RecompileFromSource_passes drv items name vssrc pssrc gssrc e =
     RecompileFromSource_loop drv items name vssrc pssrc gssrc [0..<length (m_items e)]
       (e\<lparr>m_msgs := (m_msgs e)\<lparr>BuildOccured := True, CurrentItem := name\<rparr>\<rparr>)"

definition RecompileFromSource :: "driver \<Rightarrow> project \<Rightarrow> Pass list \<Rightarrow> real \<Rightarrow> string \<Rightarrow> string
    \<Rightarrow> string \<Rightarrow> string \<Rightarrow> engine \<Rightarrow> (engine \<times> render_event list) option" where
  "RecompileFromSource drv proj items now name vssrc pssrc gssrc e = do {
     e1 \<leftarrow> RecompileFromSource_passes drv items name vssrc pssrc gssrc e;
     Render drv proj items now False e1
   }"

section \<open>Resolving a ray pick\<close>

text \<open>
  The values of a \<^verbatim>\<open>float\<close>: the real number a finite value stands for, the two
  infinities and not-a-number. \<^verbatim>\<open>a < b\<close> on floats compares the numbers and is false
  as soon as one side is not a number.
\<close>

datatype float_val = Finite real | PosInf | NegInf | NaN

fun float_less :: "float_val \<Rightarrow> float_val \<Rightarrow> bool" where
  "float_less NaN b = False"
| "float_less a NaN = False"
| "float_less (Finite x) (Finite y) = (x < y)"
| "float_less (Finite x) PosInf = True"
| "float_less (Finite x) NegInf = False"
| "float_less PosInf b = False"
| "float_less NegInf NegInf = False"
| "float_less NegInf b = True"

text \<open>The pick session: the selection list and the closest hit distance so far.\<close>

record pick_state =
  m_pick :: "item_ptr list"
  m_pickDist :: float_val

text \<open>
  \<^verbatim>\<open>RenderEngine::m_pickItem(PipelineItem* item, bool multiPick)\<close>. The ray tests
  (\<^verbatim>\<open>ray::IntersectBox\<close>, \<^verbatim>\<open>ray::IntersectTriangle\<close>, the sphere test and the
  plugin's own test) are not part of the sources at hand: \<open>myDistOf\<close> gives the value
  of \<^verbatim>\<open>myDist\<close> that they leave for an item, which for a model depends on the closest
  distance so far. For a rectangle or a screen quad the source returns before the test;
  \<open>myDistOf\<close> is \<open>PosInf\<close> for them, which is smaller than nothing.
\<close>

definition m_pickItem :: "(item_ptr \<Rightarrow> float_val \<Rightarrow> float_val) \<Rightarrow> item_ptr \<Rightarrow> bool \<Rightarrow> pick_state
    \<Rightarrow> pick_state" where
  "m_pickItem myDistOf item multiPick st =
     (let myDist = myDistOf item (m_pickDist st) in
      if float_less myDist (m_pickDist st)
      then st\<lparr>m_pickDist := myDist, m_pick := AddPickedItem item multiPick (m_pick st)\<rparr>
      else st)"

text \<open>
  \<^verbatim>\<open>Pick(sx, sy, multiPick, func)\<close> sets the closest distance to infinity and leaves
  the selection as it is; the next frame tests the geometry and model items it draws, in
  order; at the end of that frame the selection is cleared when nothing was hit, and the
  callback receives the last entry of the selection, or the null pointer.
\<close>

definition pick_begin :: "item_ptr list \<Rightarrow> pick_state" where
  "pick_begin sel = \<lparr>m_pick = sel, m_pickDist = PosInf\<rparr>"

fun pick_items :: "(item_ptr \<Rightarrow> float_val \<Rightarrow> float_val) \<Rightarrow> bool \<Rightarrow> item_ptr list \<Rightarrow> pick_state
    \<Rightarrow> pick_state" where
  "pick_items myDistOf multiPick [] st = st"
| "pick_items myDistOf multiPick (item # rest) st =
     pick_items myDistOf multiPick rest (m_pickItem myDistOf item multiPick st)"

definition pick_end :: "pick_state \<Rightarrow> item_ptr list \<times> item_ptr" where
  "pick_end st =
     (let sel = (if m_pickDist st = PosInf then [] else m_pick st)
      in (sel, if length sel = 0 then nullptr else sel ! (length sel - 1)))"

section \<open>Failure of a compile step\<close>





section \<open>Inputs used in the evaluations below\<close>

definition msgs0 :: MessageStack where
  "msgs0 = \<lparr>CurrentItem = ''Pass'', CurrentItemType = 0, BuildOccured = False, messages = []\<rparr>"

definition macros_ABC :: "ShaderMacro list" where
  "macros_ABC =
     [\<lparr>macro_Active = True, macro_Name = ''A'', macro_Value = ''1''\<rparr>,
      \<lparr>macro_Active = False, macro_Name = ''B'', macro_Value = ''2''\<rparr>,
      \<lparr>macro_Active = True, macro_Name = ''C'', macro_Value = ''3''\<rparr>]"





text \<open>A source that includes a file of three lines and then a file of one line.\<close>

definition file_X :: string where
  "file_X = ''int x;\<newline>int y;\<newline>int z;\<newline>''"

definition file_Y :: string where
  "file_Y = ''int w;\<newline>''"

definition file_main :: string where
  "file_main = ''#version 330\<newline>#include <X>\<newline>#include <Y>\<newline>void main(){}\<newline>''"

definition project_XY :: project where
  "project_XY = \<lparr>files = [(''./X'', file_X), (''./Y'', file_Y)], IncludePaths = []\<rparr>"

text \<open>
  A driver that compiles every source, a project with one vertex and one fragment
  shader, shader passes that draw one geometry item into the window texture, and an
  engine that has cached nothing yet.
\<close>

definition driver_ok :: driver where
  "driver_ok = \<lparr>compiles = (\<lambda>st s. True), GetShaderTypeFromExtension = (\<lambda>p. GLSL),
     Transcompile = (\<lambda>l p n en. []), DepthStencilBuffer = (\<lambda>rt. 0)\<rparr>"

definition project_shaders :: project where
  "project_shaders =
     \<lparr>files = [(''vs.glsl'', ''#version 330\<newline>void main(){}''),
               (''ps.glsl'', ''#version 330\<newline>void main(){}'')],
      IncludePaths = []\<rparr>"

definition shader_pass :: "string \<Rightarrow> nat \<Rightarrow> Pass" where
  "shader_pass n d =
     \<lparr>Name = n, Type = ShaderPass, Data = d, Active = True,
      Items = [\<lparr>Name = ''box'', Type = Geometry, Data = d + 100\<rparr>],
      RTCount = 1, RenderTextures = 2 # replicate 15 0, GSUsed = False,
      VSPath = ''vs.glsl'', VSEntry = ''main'', PSPath = ''ps.glsl'', PSEntry = ''main'',
      GSPath = [], GSEntry = [], Path = [], Entry = [], Macros = []\<rparr>"

definition engine_empty :: engine where
  "engine_empty =
     \<lparr>m_items = [], m_shaders = [], m_debugShaders = [], m_shaderSources = [],
      m_fbos = Map.empty, m_fboCount = Map.empty, m_fboMS = (\<lambda>p. 0), m_fbosNeedUpdate = False,
      m_cacheTimer = 0, m_computeSupported = True, m_paused = False, m_debugPixelShader = 1,
      m_rtColor = 2, m_rtDepth = 3, m_rtDepthMS = 4,
      pass_FBO = (\<lambda>p. 0), pass_DepthTexture = (\<lambda>p. 0),
      gl = \<lparr>gl_next = 5, gl_programs = [], gl_shaders = [1], gl_framebuffers = []\<rparr>,
      m_msgs = msgs0\<rparr>"

text \<open>A pipeline of four passes, and the same passes in another order.\<close>

definition pipeline_abcd :: "Pass list" where
  "pipeline_abcd =
     [shader_pass ''a'' 10, shader_pass ''b'' 11, shader_pass ''c'' 12, shader_pass ''d'' 13]"

definition pipeline_cadb :: "Pass list" where
  "pipeline_cadb =
     [shader_pass ''c'' 12, shader_pass ''a'' 10, shader_pass ''d'' 13, shader_pass ''b'' 11]"

text \<open>
  The engine after the four passes have been cached, at time 0, by a first
  \<^verbatim>\<open>m_cache\<close> on the empty engine (lemma \<open>engine_abcd_reached\<close> below), and a
  pipeline of one pass.
\<close>

definition engine_abcd :: engine where
  "engine_abcd =
     engine_empty
       \<lparr>m_items := pipeline_abcd,
        m_shaders := [7, 11, 15, 19],
        m_debugShaders := [8, 12, 16, 20],
        m_shaderSources := [\<lparr>VS = 5, PS = 6, GS = 0\<rparr>, \<lparr>VS = 9, PS = 10, GS = 0\<rparr>,
                            \<lparr>VS = 13, PS = 14, GS = 0\<rparr>, \<lparr>VS = 17, PS = 18, GS = 0\<rparr>],
        m_fbos := (\<lambda>p. if p = 10 \<or> p = 11 \<or> p = 12 \<or> p = 13 then Some (replicate 16 0) else None),
        gl := \<lparr>gl_next = 21, gl_programs = [7, 8, 11, 12, 15, 16, 19, 20],
               gl_shaders = [1, 5, 6, 9, 10, 13, 14, 17, 18], gl_framebuffers = []\<rparr>,
        m_msgs := msgs0\<lparr>CurrentItem := ''d'', CurrentItemType := 1\<rparr>\<rparr>"

definition pipeline_a :: "Pass list" where
  "pipeline_a = [shader_pass ''a'' 10]"



section \<open>Properties of the pick selection list\<close>

lemma Pick_scan_found:
  "Pick_scan item add sel rest =
     (if item \<in> set rest then ((if \<not> add then [item] else sel), True) else (sel, False))"
  by (induction rest) auto

lemma AddPickedItem_scan_found:
  "AddPickedItem_scan pipe multiPick sel rest =
     (if pipe \<in> set rest then ((if \<not> multiPick then [pipe] else sel), True)
      else (sel, False))"
  by (induction rest) auto

lemma Pick_distinct: "distinct sel \<Longrightarrow> distinct (Pick item add sel)"
  by (simp add: Pick_def Pick_scan_found)

lemma AddPickedItem_distinct:
  "distinct sel \<Longrightarrow> distinct (AddPickedItem pipe multiPick sel)"
  by (simp add: AddPickedItem_def AddPickedItem_scan_found)

lemma apply_pick_op_distinct: "distinct sel \<Longrightarrow> distinct (apply_pick_op op sel)"
  by (cases op) (simp_all add: Pick_distinct AddPickedItem_distinct)

lemma apply_pick_ops_distinct: "distinct sel \<Longrightarrow> distinct (apply_pick_ops ops sel)"
  by (induction ops arbitrary: sel) (simp_all add: apply_pick_op_distinct)

text \<open>
  Claim C10. The pick selection list never holds the same item twice: starting from a
  list without repetition (in particular the empty list of a fresh engine), every
  sequence of \<^verbatim>\<open>Pick(item, add)\<close>, \<^verbatim>\<open>AddPickedItem\<close> and clear operations
  leaves a list without repetition; both operations find an item that is already
  selected by scanning the list, and re-adding a selected item in add (multi-pick) mode
  leaves the list as it was
\<close>

theorem pick_list_distinct:
  "distinct sel \<Longrightarrow>
     distinct (apply_pick_ops ops sel)
     \<and> snd (Pick_scan item add sel sel) = (item \<in> set sel)
     \<and> snd (AddPickedItem_scan item add sel sel) = (item \<in> set sel)
     \<and> (item \<in> set sel \<longrightarrow>
          Pick item True sel = sel \<and> AddPickedItem item True sel = sel)"
  by (simp add: apply_pick_ops_distinct Pick_def AddPickedItem_def
        Pick_scan_found AddPickedItem_scan_found)

theorem pick_list_distinct_witness:
  "distinct [3, 5 :: nat]
   \<and> 5 \<in> set [3, 5 :: nat]
   \<and> apply_pick_ops [OpPick 5 True, OpAddPickedItem 3 True, OpPick 7 True, OpClear,
         OpPick 7 False, OpPick 7 True, OpAddPickedItem 9 True] [3, 5] = [7, 9]
   \<and> distinct (apply_pick_ops [OpPick 5 True, OpAddPickedItem 3 True, OpPick 7 True, OpClear,
         OpPick 7 False, OpPick 7 True, OpAddPickedItem 9 True] [3, 5])
   \<and> Pick 5 True [3, 5] = [3, 5]
   \<and> AddPickedItem 5 True [3, 5] = [3, 5]"
proof -
  have d: "distinct [3, 5 :: nat]" by simp
  have r: "apply_pick_ops [OpPick 5 True, OpAddPickedItem 3 True, OpPick 7 True, OpClear,
         OpPick 7 False, OpPick 7 True, OpAddPickedItem 9 True] [3, 5] = [7, 9]"
    by (simp add: Pick_def AddPickedItem_def nullptr_def)
  show ?thesis
    using d r pick_list_distinct [OF d, of "[OpPick 5 True, OpAddPickedItem 3 True, OpPick 7 True, OpClear,
         OpPick 7 False, OpPick 7 True, OpAddPickedItem 9 True]" 5 True]
    by simp
qed

section \<open>Properties of the preprocessor\<close>

lemma strMacro_loop_eq:
  "strMacro_loop macros acc =
     acc @ concat (map (\<lambda>m. ''#define '' @ macro_Name m @ '' '' @ macro_Value m @ [nl])
                      (filter macro_Active macros))"
  by (induction macros arbitrary: acc) simp_all

lemma find_first_of_from_skip:
  "set l \<inter> set chars = {} \<Longrightarrow> c \<in> set chars \<Longrightarrow>
     find_first_of_from chars (l @ c # rest) i = Some (i + length l)"
  by (induction l arbitrary: i) auto

text \<open>
  When the source begins with the version directive, the active macros are inserted, in
  list order, right after the newline that ends the first line.
\<close>

lemma m_applyMacros_version_first:
  assumes "nl \<notin> set l"
  shows "m_applyMacros (''#version'' @ l @ nl # rest) macros =
           ''#version'' @ l @ nl #
             concat (map (\<lambda>m. ''#define '' @ macro_Name m @ '' '' @ macro_Value m @ [nl])
                       (filter macro_Active macros)) @ rest"
proof -
  let ?s = "''#version'' @ l @ nl # rest"
  have v: "find_first_of ?s ''#version'' 0 = Some 0"
    by (simp add: find_first_of_def)
  have "find_first_of_from [nl] ((''version'' @ l) @ nl # rest) 1 = Some (1 + length (''version'' @ l))"
    using assms by (intro find_first_of_from_skip) (auto simp: nl_def)
  then have n: "find_first_of ?s [nl] 1 = Some (8 + length l)"
    by (simp add: find_first_of_def)
  let ?pre = "''#version'' @ l @ [nl]"
  have s: "?s = ?pre @ rest" by simp
  have len: "9 + length l = length ?pre" by simp
  have t: "take (9 + length l) ?s = ?pre" and d: "drop (9 + length l) ?s = rest"
    unfolding s len by simp_all
  have "m_applyMacros ?s macros =
          (if strMacro_loop macros [] = [] then ?s
           else take (9 + length l) ?s @ strMacro_loop macros [] @ drop (9 + length l) ?s)"
    using v n by (simp add: m_applyMacros_def Let_def insert_at_def del: append.simps take_append drop_append)
  then show ?thesis
    unfolding t d by (simp add: strMacro_loop_eq)
qed

lemma m_applyMacros_spec_example:
  "m_applyMacros ''#version 330\<newline>void main(){}'' macros_ABC =
     ''#version 330\<newline>#define A 1\<newline>#define C 3\<newline>void main(){}''"
  by code_simp

text \<open>
  Claim C6. For a source that contains a version directive, macro injection inserts one
  define line per active macro, in list order, right after the newline of the first
  version line. The code searches with \<^verbatim>\<open>find_first_of("#version")\<close>, which stops at
  the first character that is one of \<^verbatim>\<open>#\<close>, v, e, r, s, i, o, n; a comment line
  before the directive holds such a character, and the define lines are inserted after
  the comment line, before the version directive
\<close>

theorem m_applyMacros_comment_before_version:
  "m_applyMacros ''// s\<newline>#version 330\<newline>void main(){}'' macros_ABC =
     ''// s\<newline>#define A 1\<newline>#define C 3\<newline>#version 330\<newline>void main(){}''"
  by code_simp






















text \<open>
  Claim C7. Each splice of an included file updates the line bias by that file's line
  count, so that after all includes are expanded the bias accounts for the lines of
  every spliced file. The code assigns the count of the file it has just loaded to the
  bias instead of adding it: after a file of three lines and a file of one line are
  spliced into a source, the bias is 1
\<close>

theorem lineBias_holds_last_file_only:
  "lineBias (m_includeCheck project_XY file_main [] 0 msgs0) = 1
   \<and> src (m_includeCheck project_XY file_main [] 0 msgs0) =
       ''#version 330\<newline>int x;\<newline>int y;\<newline>int z;\<newline>\<newline>int w;\<newline>\<newline>void main(){}\<newline>''
   \<and> count_list file_X nl = 3 \<and> count_list file_Y nl = 1"
  by code_simp

section \<open>Properties of the ray pick\<close>

lemma AddPickedItem_member:
  "item \<noteq> nullptr \<Longrightarrow> item \<in> set (AddPickedItem item multiPick sel)"
  by (auto simp: AddPickedItem_def AddPickedItem_scan_found)

lemma AddPickedItem_single:
  "item \<noteq> nullptr \<Longrightarrow> AddPickedItem item False sel = [item]"
  by (auto simp: AddPickedItem_def AddPickedItem_scan_found)

lemma AddPickedItem_keeps:
  "item \<noteq> nullptr \<Longrightarrow> x \<in> set sel \<Longrightarrow> x \<in> set (AddPickedItem item True sel)"
  by (auto simp: AddPickedItem_def AddPickedItem_scan_found)

lemma AddPickedItem_multi:
  "item \<noteq> nullptr \<Longrightarrow>
     AddPickedItem item True sel = (if item \<in> set sel then sel else sel @ [item])"
  by (auto simp: AddPickedItem_def AddPickedItem_scan_found)

text \<open>
  Claim C9, as stated: a tested item replaces the pick result only when it is strictly
  closer, so that of two boxes at different distances the nearer one is selected whatever
  the order of the tests. In multi-pick mode this fails: with the nearer box 1 (distance
  3) already in the selection and the farther box 2 (distance 5) tested first, box 2 is
  added, the later test of box 1 finds it selected and adds nothing, and the callback
  receives the farther box 2; with box 1 tested first the selection stays [1] and the
  callback receives box 1
\<close>

theorem pick_multi_depends_on_order:
  "pick_end (pick_items (\<lambda>i d. if i = 1 then Finite 3 else Finite 5) True [2, 1] (pick_begin [1]))
     = ([1, 2], 2)
   \<and> pick_end (pick_items (\<lambda>i d. if i = 1 then Finite 3 else Finite 5) True [1, 2] (pick_begin [1]))
     = ([1], 1)
   \<and> pick_end (pick_items (\<lambda>i d. if i = 1 then Finite 3 else Finite 5) True [2, 1] (pick_begin []))
     = ([2, 1], 1)
   \<and> pick_end (pick_items (\<lambda>i d. if i = 1 then Finite 3 else Finite 5) True [1, 2] (pick_begin []))
     = ([1], 1)"
  by (simp add: pick_begin_def pick_end_def m_pickItem_def AddPickedItem_def nullptr_def Let_def)

text \<open>
  Claim C9, amended. A tested item changes the pick state only when its hit distance is
  strictly smaller than the closest distance so far; then the closest distance becomes
  its distance and the item goes through \<^verbatim>\<open>AddPickedItem\<close>. In single-pick mode,
  for two boxes \<open>a\<close> and \<open>b\<close> with hit distances \<open>da < db\<close> and any earlier
  selection, the frame ends with \<open>a\<close> as the whole selection and as the entry handed
  to the callback, whichever box is tested first; at equal distances the box tested
  first is the one selected. In multi-pick mode a strictly closer item is appended to
  the selection unless it is in it already, and nothing is removed: with \<open>a\<close> tested
  first the selection gains at most \<open>a\<close>, with \<open>b\<close> tested first it gains
  \<open>b\<close> and then \<open>a\<close>
\<close>

theorem pick_closest_hit_by_mode:
  assumes "a \<noteq> nullptr" and "b \<noteq> nullptr" and "a \<noteq> b"
    and "\<And>d. myDistOf a d = Finite da" and "\<And>d. myDistOf b d = Finite db"
  shows "(\<not> float_less (f item (m_pickDist st)) (m_pickDist st) \<longrightarrow>
            m_pickItem f item multiPick st = st)
       \<and> (float_less (f item (m_pickDist st)) (m_pickDist st) \<longrightarrow>
            m_pickItem f item multiPick st =
              st\<lparr>m_pickDist := f item (m_pickDist st),
                 m_pick := AddPickedItem item multiPick (m_pick st)\<rparr>)
       \<and> (da < db \<longrightarrow>
            pick_end (pick_items myDistOf False [a, b] (pick_begin sel)) = ([a], a)
          \<and> pick_end (pick_items myDistOf False [b, a] (pick_begin sel)) = ([a], a)
          \<and> pick_items myDistOf True [a, b] (pick_begin sel) =
               \<lparr>m_pick = (if a \<in> set sel then sel else sel @ [a]), m_pickDist = Finite da\<rparr>
          \<and> pick_items myDistOf True [b, a] (pick_begin sel) =
               \<lparr>m_pick = (if a \<in> set sel then (if b \<in> set sel then sel else sel @ [b])
                           else (if b \<in> set sel then sel else sel @ [b]) @ [a]),
                m_pickDist = Finite da\<rparr>)
       \<and> (da = db \<longrightarrow>
            pick_items myDistOf multiPick [a, b] (pick_begin sel)
              = pick_items myDistOf multiPick [a] (pick_begin sel)
          \<and> pick_end (pick_items myDistOf False [a, b] (pick_begin sel)) = ([a], a)
          \<and> pick_end (pick_items myDistOf False [b, a] (pick_begin sel)) = ([b], b))"
  using assms
  by (auto simp: m_pickItem_def pick_begin_def pick_end_def Let_def
        AddPickedItem_single AddPickedItem_multi)

theorem pick_closest_hit_by_mode_witness:
  "(1::nat) \<noteq> nullptr \<and> (2::nat) \<noteq> nullptr \<and> (3::real) < 5
   \<and> pick_end (pick_items (\<lambda>i d. if i = 1 then Finite 3 else Finite 5) False [2, 1]
         (pick_begin [7])) = ([1], 1)
   \<and> pick_end (pick_items (\<lambda>i d. if i = 1 then Finite 3 else Finite 5) False [1, 2]
         (pick_begin [7])) = ([1], 1)
   \<and> pick_items (\<lambda>i d. if i = 1 then Finite 3 else Finite 5) True [2, 1] (pick_begin [7])
       = \<lparr>m_pick = [7, 2, 1], m_pickDist = Finite 3\<rparr>"
proof -
  have a: "(1::nat) \<noteq> nullptr" and b: "(2::nat) \<noteq> nullptr" and ab: "(1::nat) \<noteq> 2"
    by (simp_all add: nullptr_def)
  have da: "\<And>d. (\<lambda>i d. if i = (1::nat) then Finite 3 else Finite 5) 1 d = Finite 3"
    and db: "\<And>d. (\<lambda>i d. if i = (1::nat) then Finite 3 else Finite 5) 2 d = Finite 5"
    by simp_all
  show ?thesis
    using a b pick_closest_hit_by_mode [OF a b ab da db, where sel = "[7]"]
    by simp
qed

section \<open>Properties of the cache\<close>

lemma cache_ShaderPass_timer:
  "cache_ShaderPass drv proj it i e = Some e' \<Longrightarrow> m_cacheTimer e' = m_cacheTimer e"
  unfolding cache_ShaderPass_def Let_def
  by (auto split: bind_splits if_splits prod.splits)

lemma cache_ComputePass_timer:
  "cache_ComputePass drv proj it i e = Some e' \<Longrightarrow> m_cacheTimer e' = m_cacheTimer e"
  unfolding cache_ComputePass_def Let_def
  by (auto split: bind_splits if_splits prod.splits)

lemma cache_add_timer:
  "cache_add drv proj items i e = Some e' \<Longrightarrow> m_cacheTimer e' = m_cacheTimer e"
  unfolding cache_add_def cache_AudioPass_def cache_PluginItem_def
  by (auto split: bind_splits if_splits dest: cache_ShaderPass_timer cache_ComputePass_timer)

lemma cache_add_loop_timer:
  "cache_add_loop drv proj items is e = Some e' \<Longrightarrow> m_cacheTimer e' = m_cacheTimer e"
  by (induction "is" arbitrary: e) (auto split: option.splits dest: cache_add_timer)

lemma cache_remove_timer:
  "cache_remove i e = Some e' \<Longrightarrow> m_cacheTimer e' = m_cacheTimer e"
  unfolding cache_remove_def Let_def by (auto split: bind_splits)

lemma cache_remove_loop_timer:
  "cache_remove_loop items i e = Some e' \<Longrightarrow> m_cacheTimer e' = m_cacheTimer e"
proof (induction items i e rule: cache_remove_loop.induct)
  case (1 items i e)
  show ?case
  proof (cases "i < length (m_items e)")
    case False
    with "1.prems" show ?thesis by (simp add: cache_remove_loop.simps [of items i e])
  next
    case True
    show ?thesis
    proof (cases "cache_found (Data (m_items e ! i)) items")
      case found: True
      with True "1.prems" have "cache_remove_loop items (i + 1) e = Some e'"
        by (simp add: cache_remove_loop.simps [of items i e])
      with "1.IH"(2) True found show ?thesis by simp
    next
      case notfound: False
      with True "1.prems" obtain e1 where
        r: "cache_remove i e = Some e1" and l: "cache_remove_loop items (i + 1) e1 = Some e'"
        by (auto simp: cache_remove_loop.simps [of items i e] split: option.splits)
      from "1.IH"(1) [OF True notfound r l] cache_remove_timer [OF r] show ?thesis by simp
    qed
  qed
qed

lemma cache_move_timer:
  "cache_move items i j e = Some e' \<Longrightarrow> m_cacheTimer e' = m_cacheTimer e"
  unfolding cache_move_def Let_def by (auto split: bind_splits)

lemma cache_reorder_inner_timer:
  "cache_reorder_inner items i js e = Some e' \<Longrightarrow> m_cacheTimer e' = m_cacheTimer e"
  by (induction js arbitrary: e) (auto split: option.splits if_splits dest: cache_move_timer)

lemma cache_reorder_loop_timer:
  "cache_reorder_loop items i e = Some e' \<Longrightarrow> m_cacheTimer e' = m_cacheTimer e"
proof (induction items i e rule: cache_reorder_loop.induct)
  case (1 items i e)
  show ?case
  proof (cases "i < length (m_items e)")
    case False
    with "1.prems" show ?thesis by (simp add: cache_reorder_loop.simps [of items i e])
  next
    case True
    with "1.prems" obtain it where it: "vec_at items i = Some it"
      by (auto simp: cache_reorder_loop.simps [of items i e] split: option.splits)
    show ?thesis
    proof (cases "Data it \<noteq> Data (m_items e ! i)")
      case differ: True
      with True it "1.prems" obtain e1 where
        r: "cache_reorder_inner items i [0..<length items] e = Some e1"
        and l: "cache_reorder_loop items (i + 1) e1 = Some e'"
        by (auto simp: cache_reorder_loop.simps [of items i e] split: option.splits)
      from "1.IH"(1) [OF True it differ r l] cache_reorder_inner_timer [OF r]
      show ?thesis by simp
    next
      case same: False
      with True it "1.prems" have "cache_reorder_loop items (i + 1) e = Some e'"
        by (simp add: cache_reorder_loop.simps [of items i e])
      from "1.IH"(2) [OF True it same this] show ?thesis .
    qed
  qed
qed

lemma engine_abcd_reached:
  "map_option (\<lambda>e. (m_items e, m_shaders e, m_debugShaders e, m_shaderSources e,
                     map (m_fbos e) [9, 10, 11, 12, 13, 14], gl e, m_msgs e, m_cacheTimer e))
     (m_cache driver_ok project_shaders pipeline_abcd 0 engine_empty)
   = Some (m_items engine_abcd, m_shaders engine_abcd, m_debugShaders engine_abcd,
           m_shaderSources engine_abcd, map (m_fbos engine_abcd) [9, 10, 11, 12, 13, 14],
           gl engine_abcd, m_msgs engine_abcd, m_cacheTimer engine_abcd)"
  by code_simp

text \<open>
  Claim C1. When the pipeline list changes from a list to a permutation of it, one
  reconciliation leaves the cache with the same program handles for the same items, in
  the order of the new list, without compiling anything; after a reconciliation the
  order of the cache is the order of the pipeline list. In the code the loop that moves
  the entries does not always reach the order of the pipeline list: from the cache of
  the passes a, b, c, d and the pipeline list c, a, d, b, one run of \<^verbatim>\<open>m_cache\<close>
  (with the timer beyond its interval) ends with the cache in the order a, c, d, b.
  Every entry keeps its handles and no program is created or deleted
\<close>

theorem reorder_misses_pipeline_order:
  "map_option (\<lambda>e. (map Name (m_items e), m_shaders e, m_debugShaders e, gl e))
     (m_cache driver_ok project_shaders pipeline_cadb 1 engine_abcd)
   = Some ([''a'', ''c'', ''d'', ''b''], [7, 15, 19, 11], [8, 16, 20, 12], gl engine_abcd)
   \<and> map Name pipeline_cadb = [''c'', ''a'', ''d'', ''b'']
   \<and> map Name (m_items engine_abcd) = [''a'', ''b'', ''c'', ''d'']"
  by code_simp

text \<open>
  Claim C5. When \<^verbatim>\<open>m_cache\<close> is called while the pipeline list is as long as the
  cache and the timer has not passed 0.5 seconds, it adds, removes, moves and compiles
  nothing and leaves the whole engine state as it is. Once the timer has passed 0.5
  seconds it is restarted and the three loops of the reconciliation run; whatever they
  do, the timer of the resulting state holds the time of this call
\<close>

theorem cache_debounce:
  assumes "length (m_items e) = length items"
  shows "(now - m_cacheTimer e \<le> 0.5 \<longrightarrow> m_cache drv proj items now e = Some e)
       \<and> (now - m_cacheTimer e > 0.5 \<longrightarrow>
            m_cache drv proj items now e =
              (cache_add_loop drv proj items [0..<length items] (e\<lparr>m_cacheTimer := now\<rparr>)
                 \<bind> cache_remove_loop items 0 \<bind> cache_reorder_loop items 0)
          \<and> (\<forall>e'. m_cache drv proj items now e = Some e' \<longrightarrow> m_cacheTimer e' = now))"
proof (intro conjI impI allI)
  assume "now - m_cacheTimer e \<le> 0.5"
  with assms show "m_cache drv proj items now e = Some e"
    by (simp add: m_cache_def)
next
  assume late: "now - m_cacheTimer e > 0.5"
  with assms show run: "m_cache drv proj items now e =
      (cache_add_loop drv proj items [0..<length items] (e\<lparr>m_cacheTimer := now\<rparr>)
         \<bind> cache_remove_loop items 0 \<bind> cache_reorder_loop items 0)"
    by (simp add: m_cache_def)
  fix e'
  assume "m_cache drv proj items now e = Some e'"
  with run obtain e1 e2 where
    "cache_add_loop drv proj items [0..<length items] (e\<lparr>m_cacheTimer := now\<rparr>) = Some e1"
    "cache_remove_loop items 0 e1 = Some e2" "cache_reorder_loop items 0 e2 = Some e'"
    by (auto split: bind_splits)
  then show "m_cacheTimer e' = now"
    using cache_add_loop_timer cache_remove_loop_timer cache_reorder_loop_timer
    by fastforce
qed

theorem cache_debounce_witness:
  "length (m_items engine_abcd) = length pipeline_cadb
   \<and> (1 / 4 - m_cacheTimer engine_abcd \<le> 0.5)
   \<and> m_cache driver_ok project_shaders pipeline_cadb (1 / 4) engine_abcd = Some engine_abcd
   \<and> (1 - m_cacheTimer engine_abcd > 0.5)
   \<and> map_option m_cacheTimer (m_cache driver_ok project_shaders pipeline_cadb 1 engine_abcd)
       = Some 1"
proof -
  have l: "length (m_items engine_abcd) = length pipeline_cadb"
    by (simp add: engine_abcd_def pipeline_cadb_def pipeline_abcd_def)
  have t: "m_cacheTimer engine_abcd = 0"
    by (simp add: engine_abcd_def engine_empty_def)
  have early: "1 / 4 - m_cacheTimer engine_abcd \<le> 0.5" and late: "1 - m_cacheTimer engine_abcd > 0.5"
    unfolding t by simp_all
  have "map_option (\<lambda>e. length (m_items e))
          (m_cache driver_ok project_shaders pipeline_cadb 1 engine_abcd) = Some 4"
    by code_simp
  then obtain e' where r: "m_cache driver_ok project_shaders pipeline_cadb 1 engine_abcd = Some e'"
    by auto
  note c1 = cache_debounce [OF l, of "1 / 4" driver_ok project_shaders]
  note c2 = cache_debounce [OF l, of 1 driver_ok project_shaders]
  have w1: "m_cache driver_ok project_shaders pipeline_cadb (1 / 4) engine_abcd = Some engine_abcd"
    using c1 early by blast
  have "m_cacheTimer e' = 1"
    using c2 late r by blast
  then have w2: "map_option m_cacheTimer (m_cache driver_ok project_shaders pipeline_cadb 1 engine_abcd)
       = Some 1"
    unfolding r by simp
  from l early w1 late w2 show ?thesis by blast
qed

section \<open>Properties of \<^verbatim>\<open>FlushCache\<close>\<close>

text \<open>
  Claim C3. After \<^verbatim>\<open>FlushCache()\<close> and one \<^verbatim>\<open>Render\<close>, the program and the
  framebuffer of every pass have been built anew and no stale handle is left in any
  cache list of the engine. The code clears \<^verbatim>\<open>m_items\<close>, \<^verbatim>\<open>m_shaders\<close> and
  \<^verbatim>\<open>m_shaderSources\<close> but neither clears \<^verbatim>\<open>m_debugShaders\<close> nor deletes the
  debug programs: for an engine that has rendered one pass (program 7, debug program 8,
  framebuffer 9), the flush leaves the debug program 8 in \<^verbatim>\<open>m_debugShaders\<close> and
  alive in the driver, and the next frame builds program 13, debug program 14 and
  framebuffer 15 with the stale 8 still in the list behind 14
\<close>

theorem FlushCache_keeps_debug_programs:
  "map_option (\<lambda>(e, evs). (m_shaders e, m_debugShaders e, gl_programs (gl e), pass_FBO e 10))
     (Render driver_ok project_shaders pipeline_a 0 False engine_empty)
   = Some ([7], [8], [7, 8], 9)
   \<and> map_option (\<lambda>e. (m_items e, m_shaders e, m_shaderSources e, m_debugShaders e,
                       gl_programs (gl e)))
       (Render driver_ok project_shaders pipeline_a 0 False engine_empty
          \<bind> (\<lambda>(e, evs). FlushCache e))
     = Some ([], [], [], [8], [8])
   \<and> map_option (\<lambda>(e, evs). (m_shaders e, m_debugShaders e, gl_programs (gl e), pass_FBO e 10,
                              gl_framebuffers (gl e)))
       (Render driver_ok project_shaders pipeline_a 0 False engine_empty
          \<bind> (\<lambda>(e, evs). FlushCache e)
          \<bind> Render driver_ok project_shaders pipeline_a 1 False)
     = Some ([13], [14, 8], [8, 13, 14], 15, [15, 16])"
  by code_simp

section \<open>Properties of a failed compile\<close>




lemma vec_at_set_same:
  "vec_at xs i = Some x \<Longrightarrow> vec_set i x xs = Some ys \<Longrightarrow> ys = xs"
  by (auto simp: vec_set_def vec_at_def split: if_splits)

lemma gl_programs_CompileShader:
  "gl_programs (snd (CompileShader g)) = gl_programs g"
  by (simp add: CompileShader_def)



lemma cache_geometry_stage_programs:
  "gl_programs (fst (snd (snd (cache_geometry_stage drv proj it g msgs)))) = gl_programs g"
  by (simp add: cache_geometry_stage_def Let_def case_prod_beta gl_programs_CompileShader)




lemma cache_compile_ShaderPass_programs:
  "gl_programs (fst (snd (snd (cache_compile_ShaderPass drv proj it g msgs)))) = gl_programs g"
  by (simp add: cache_compile_ShaderPass_def Let_def case_prod_beta gl_programs_CompileShader
      cache_geometry_stage_programs)































end
